theory Spec2Isabelle
  imports Complex_Main "HOL-Library.Word" "HOL-Library.Log_Nat"
begin

unbundle bit_operations_syntax

section \<open>Strings and numbers of the source language\<close>

text \<open>
  A string of the program is a sequence of 16-bit code units (what \<^verbatim>\<open>charCodeAt\<close>
  reads). \<open>js\<close> embeds a literal. The free-text strength and strategy tags of a bowler,
  which the program lower-cases and searches for ASCII keywords, are kept as \<open>string\<close>:
  code units below 256, where \<^verbatim>\<open>toLowerCase\<close> is the Latin-1 mapping below.
\<close>

type_synonym jsstring = "16 word list"

definition js :: "string \<Rightarrow> jsstring" where
  "js s = map (\<lambda>c. of_nat (of_char c)) s"

definition toLowerChar :: "char \<Rightarrow> char" where
  "toLowerChar c =
     (let n = (of_char c :: nat)
      in if (65 \<le> n \<and> n \<le> 90) \<or> (192 \<le> n \<and> n \<le> 222 \<and> n \<noteq> 215)
         then char_of (n + 32) else c)"

definition toLowerCase :: "string \<Rightarrow> string" where
  "toLowerCase s = map toLowerChar s"

fun startsWith :: "'a list \<Rightarrow> 'a list \<Rightarrow> bool" where
  "startsWith _ [] = True"
| "startsWith [] (_ # _) = False"
| "startsWith (x # xs) (y # ys) = (x = y \<and> startsWith xs ys)"

text \<open>\<^verbatim>\<open>s.includes(needle)\<close>: the needle occurs as a contiguous substring.\<close>

fun includes_js :: "'a list \<Rightarrow> 'a list \<Rightarrow> bool" where
  "includes_js [] needle = (needle = [])"
| "includes_js (x # xs) needle = (startsWith (x # xs) needle \<or> includes_js xs needle)"

text \<open>Decimal rendering of a non-negative integer, as a template literal prints it.\<close>

definition digit :: "nat \<Rightarrow> char" where
  "digit d = char_of (48 + d)"

fun digits :: "nat \<Rightarrow> nat \<Rightarrow> string" where
  "digits 0 n = []"
| "digits (Suc fuel) n =
     (if n < 10 then [digit n] else digits fuel (n div 10) @ [digit (n mod 10)])"

definition showNat :: "nat \<Rightarrow> string" where
  "showNat n = digits (Suc n) n"

text \<open>
  Numbers of the program are IEEE-754 binary64 values. A finite one is \<open>m * 2 ^ e\<close> for
  integers \<open>m\<close> and \<open>e\<close>, kept as the pair \<open>(m, e)\<close> (\<open>valueOf\<close> reads it). Each
  arithmetic operation is the exact operation followed by rounding the mantissa to 53
  significant bits, to nearest and ties to even (\<open>roundTo53\<close>). The weights and draws of
  the planner stay far inside the normal range, so overflow, subnormal numbers and NaN
  are not modelled. \<open>lit p q\<close> is the double that the decimal literal \<open>p / q\<close> denotes,
  for positive \<open>p\<close> and \<open>q\<close>.
\<close>

type_synonym double = "int \<times> int"

definition valueOf :: "double \<Rightarrow> rat" where
  "valueOf x = (case x of (m, e) \<Rightarrow>
     if 0 \<le> e then of_int m * 2 ^ nat e else of_int m / 2 ^ nat (- e))"

definition roundTo53 :: "int \<Rightarrow> int \<Rightarrow> double" where
  "roundTo53 m e =
     (let s = nat (bitlen (\<bar>m\<bar> div 2 ^ 53)) in
      if s = 0 then (m, e)
      else let q = m div 2 ^ s; r = m mod 2 ^ s; h = 2 ^ (s - 1)
           in (if r < h then q else if h < r then q + 1 else if even q then q else q + 1,
               e + int s))"

definition fadd :: "double \<Rightarrow> double \<Rightarrow> double" where
  "fadd x y = (case (x, y) of ((m1, e1), (m2, e2)) \<Rightarrow>
     let e = min e1 e2 in roundTo53 (m1 * 2 ^ nat (e1 - e) + m2 * 2 ^ nat (e2 - e)) e)"

definition fsub :: "double \<Rightarrow> double \<Rightarrow> double" where
  "fsub x y = (case (x, y) of ((m1, e1), (m2, e2)) \<Rightarrow>
     let e = min e1 e2 in roundTo53 (m1 * 2 ^ nat (e1 - e) - m2 * 2 ^ nat (e2 - e)) e)"

definition fmul :: "double \<Rightarrow> double \<Rightarrow> double" where
  "fmul x y = (case (x, y) of ((m1, e1), (m2, e2)) \<Rightarrow> roundTo53 (m1 * m2) (e1 + e2))"

definition le0 :: "double \<Rightarrow> bool" where
  "le0 x = (fst x \<le> 0)"

definition lit :: "int \<Rightarrow> int \<Rightarrow> double" where
  "lit p q =
     (let k0 = 53 - (bitlen p - bitlen q);
          k = (if bitlen ((p * 2 ^ nat k0) div q) \<le> 53 then k0 else k0 - 1);
          n = p * 2 ^ nat k; m = n div q; r = n mod q
      in (if 2 * r < q then m else if q < 2 * r then m + 1 else if even m then m else m + 1,
          - k))"

definition dOne :: double where
  "dOne = (1, 0)"

definition dZero :: double where
  "dZero = (0, 0)"

section \<open>Deterministic RNG helpers (lib/random)\<close>

text \<open>
  \<^verbatim>\<open>seedFromString\<close>: \<^verbatim>\<open>h ^= s.charCodeAt(i); h = Math.imul(h, 16777619)\<close>, read
  back unsigned. All of it is 32-bit two's complement arithmetic, so \<open>h\<close> is a
  \<open>32 word\<close>.
\<close>

definition seedFromString :: "jsstring \<Rightarrow> 32 word" where
  "seedFromString s = fold (\<lambda>c h. (h XOR ucast c) * 16777619) s 2166136261"

text \<open>
  \<^verbatim>\<open>mulberry32(a)\<close> returns a closure over \<open>a\<close>; one call of the closure is a step
  from the state \<open>a\<close> to the value drawn and the next state. The value is the unsigned
  32-bit result divided by \<open>4294967296 = 2 ^ 32\<close>, which is exact.
\<close>

definition mulberry32 :: "32 word \<Rightarrow> double \<times> 32 word" where
  "mulberry32 a0 =
     (let a = a0 + 0x6D2B79F5;
          t = (a XOR drop_bit 15 a) * (1 OR a);
          t = (t + (t XOR drop_bit 7 t) * (61 OR t)) XOR t
      in ((uint (t XOR drop_bit 14 t), - 32), a))"

text \<open>
  \<^verbatim>\<open>pickWeighted\<close>: \<open>None\<close> stands for the TypeError of reading
  \<^verbatim>\<open>items[items.length - 1][0]\<close> on an empty list.
\<close>

fun pickScan :: "double \<Rightarrow> ('a \<times> double) list \<Rightarrow> 'a option" where
  "pickScan r [] = None"
| "pickScan r ((it, w) # rest) =
     (let r' = fsub r w in if le0 r' then Some it else pickScan r' rest)"

definition pickWeighted :: "32 word \<Rightarrow> ('a \<times> double) list \<Rightarrow> ('a \<times> 32 word) option" where
  "pickWeighted rng items =
     (let total = foldl (\<lambda>s (_, w). fadd s w) dZero items;
          (u, rng') = mulberry32 rng;
          r = fmul u total
      in case pickScan r items of
           Some it \<Rightarrow> Some (it, rng')
         | None \<Rightarrow> (if items = [] then None else Some (fst (last items), rng')))"

section \<open>Shared types (types/cricket)\<close>

datatype Arm = R | L

datatype BowlerType =
    Pace | Fast | FastMedium | MediumFast | Medium
  | Seam | Swing
  | OffSpin | LegSpin
  | LeftArmOrthodox | LeftArmWristSpin
  | Mystery | PaceSpinHybrid

fun bowlerTypeName :: "BowlerType \<Rightarrow> string" where
  "bowlerTypeName Pace = ''pace''"
| "bowlerTypeName Fast = ''fast''"
| "bowlerTypeName FastMedium = ''fast-medium''"
| "bowlerTypeName MediumFast = ''medium-fast''"
| "bowlerTypeName Medium = ''medium''"
| "bowlerTypeName Seam = ''seam''"
| "bowlerTypeName Swing = ''swing''"
| "bowlerTypeName OffSpin = ''off-spin''"
| "bowlerTypeName LegSpin = ''leg-spin''"
| "bowlerTypeName LeftArmOrthodox = ''left-arm orthodox''"
| "bowlerTypeName LeftArmWristSpin = ''left-arm wrist-spin''"
| "bowlerTypeName Mystery = ''mystery''"
| "bowlerTypeName PaceSpinHybrid = ''pace-spin-hybrid''"

datatype DeliveryType =
    Standard | Slower | Outswing | Inswing | CrossSeam | OffCutter | LegCutter | Bouncer
  | OffBreak | ArmBall | LegBreak | Googly | TopSpinner | Slider

fun deliveryTypeName :: "DeliveryType \<Rightarrow> string" where
  "deliveryTypeName Standard = ''Standard''"
| "deliveryTypeName Slower = ''Slower''"
| "deliveryTypeName Outswing = ''Outswing''"
| "deliveryTypeName Inswing = ''Inswing''"
| "deliveryTypeName CrossSeam = ''Cross seam''"
| "deliveryTypeName OffCutter = ''Off cutter''"
| "deliveryTypeName LegCutter = ''Leg cutter''"
| "deliveryTypeName Bouncer = ''Bouncer''"
| "deliveryTypeName OffBreak = ''Off-break''"
| "deliveryTypeName ArmBall = ''Arm ball''"
| "deliveryTypeName LegBreak = ''Leg-break''"
| "deliveryTypeName Googly = ''Googly''"
| "deliveryTypeName TopSpinner = ''Top-spinner''"
| "deliveryTypeName Slider = ''Slider''"

datatype Length = Full | Good | Short | Yorker | BackOfLength

fun lengthName :: "Length \<Rightarrow> string" where
  "lengthName Full = ''Full''"
| "lengthName Good = ''Good''"
| "lengthName Short = ''Short''"
| "lengthName Yorker = ''Yorker''"
| "lengthName BackOfLength = ''Back-of-length''"

datatype Line =
    OffStump | MiddleStump | LegStump | FourthStump | FifthStump
  | OutsideOff | WideOutsideOff | AtBody | OutsideLeg

fun lineName :: "Line \<Rightarrow> string" where
  "lineName OffStump = ''Off stump''"
| "lineName MiddleStump = ''Middle stump''"
| "lineName LegStump = ''Leg stump''"
| "lineName FourthStump = ''4th stump''"
| "lineName FifthStump = ''5th stump''"
| "lineName OutsideOff = ''Outside off''"
| "lineName WideOutsideOff = ''Wide outside off''"
| "lineName AtBody = ''At body''"
| "lineName OutsideLeg = ''Outside leg''"

datatype PhaseId = powerplay | middle | death

fun phaseName :: "PhaseId \<Rightarrow> string" where
  "phaseName powerplay = ''powerplay''"
| "phaseName middle = ''middle''"
| "phaseName death = ''death''"

datatype PitchType = Normal | Green | Dusty | Dry

fun pitchName :: "PitchType \<Rightarrow> string" where
  "pitchName Normal = ''Normal''"
| "pitchName Green = ''Green''"
| "pitchName Dusty = ''Dusty''"
| "pitchName Dry = ''Dry''"

record Bowler =
  b_id :: jsstring
  b_name :: jsstring
  b_country :: "jsstring option"
  b_arm :: Arm
  b_type :: BowlerType
  b_strengths :: "string list option"
  b_strategies :: "string list option"
  b_isLegend :: "bool option"

record DeliveryPlanItem =
  over :: nat
  dtype :: DeliveryType
  len :: Length
  line :: Line
  purpose :: jsstring

text \<open>\<^verbatim>\<open>Partial<DeliveryPlanItem>\<close>: every field may be absent.\<close>

record PartialItem =
  p_type :: "DeliveryType option"
  p_length :: "Length option"
  p_line :: "Line option"
  p_purpose :: "jsstring option"

definition LENGTHS :: "Length list" where
  "LENGTHS = [Full, Good, Short, Yorker, BackOfLength]"

definition LINES :: "Line list" where
  "LINES = [OffStump, MiddleStump, LegStump, FourthStump, FifthStump,
            OutsideOff, WideOutsideOff, AtBody, OutsideLeg]"

definition DELIVERY_TYPES_PACE :: "DeliveryType list" where
  "DELIVERY_TYPES_PACE =
     [Standard, Slower, Outswing, Inswing, CrossSeam, OffCutter, LegCutter, Bouncer]"

definition DELIVERY_TYPES_SPIN :: "DeliveryType list" where
  "DELIVERY_TYPES_SPIN = [OffBreak, ArmBall, LegBreak, Googly, TopSpinner, Slider]"

section \<open>Strategy weights and biases (lib/strategyMap)\<close>

text \<open>
  A weight table is an object whose keys keep their insertion order, which is the order
  \<^verbatim>\<open>Object.entries\<close> later reads: an association list without duplicate keys.
  \<open>assign\<close> is \<^verbatim>\<open>w[k] = v\<close>; \<open>bump\<close> is \<^verbatim>\<open>w[k] = (w[k] ?? 1) + x\<close>;
  \<open>addTo\<close> is \<^verbatim>\<open>w[k]! += x\<close> on a key that is present. A decimal literal of
  the source is the double nearest to it, \<open>lit\<close> of the fraction.
\<close>

type_synonym 'k Weights = "('k \<times> double) list"

fun assign :: "('k \<times> 'v) list \<Rightarrow> 'k \<Rightarrow> 'v \<Rightarrow> ('k \<times> 'v) list" where
  "assign [] k v = [(k, v)]"
| "assign ((k', v') # w) k v = (if k' = k then (k, v) # w else (k', v') # assign w k v)"

definition bump :: "'k Weights \<Rightarrow> 'k \<Rightarrow> double \<Rightarrow> 'k Weights" where
  "bump w k x = assign w k (fadd (case map_of w k of None \<Rightarrow> dOne | Some v \<Rightarrow> v) x)"

definition addTo :: "'k Weights \<Rightarrow> 'k \<Rightarrow> double \<Rightarrow> 'k Weights" where
  "addTo w k x = map (\<lambda>(k', v). if k' = k then (k', fadd v x) else (k', v)) w"

definition isSpin :: "Bowler \<Rightarrow> bool" where
  "isSpin b = includes_js (bowlerTypeName (b_type b)) ''spin''"

definition strengthsOf :: "Bowler \<Rightarrow> string list" where
  "strengthsOf b = (case b_strengths b of None \<Rightarrow> [] | Some ss \<Rightarrow> ss)"

definition spinNudge :: "DeliveryType Weights \<Rightarrow> string \<Rightarrow> DeliveryType Weights" where
  "spinNudge w s =
     (let k = toLowerCase s;
          w = (if includes_js k ''arm'' then bump w ArmBall (lit 15 10) else w);
          w = (if includes_js k ''googly'' then bump w Googly (lit 15 10) else w);
          w = (if includes_js k ''top'' then bump w TopSpinner dOne else w)
      in w)"

definition paceNudge :: "DeliveryType Weights \<Rightarrow> string \<Rightarrow> DeliveryType Weights" where
  "paceNudge w s =
     (let k = toLowerCase s;
          w = (if includes_js k ''yorker'' then addTo w Standard (lit 2 10) else w);
          w = (if includes_js k ''outswing'' then bump w Outswing (lit 15 10) else w);
          w = (if includes_js k ''inswing'' then bump w Inswing (lit 15 10) else w);
          w = (if includes_js k ''wobble'' \<or> includes_js k ''seam''
               then bump w CrossSeam (lit 12 10) else w);
          w = (if includes_js k ''cutter''
               then bump (bump w OffCutter (lit 12 10)) LegCutter (lit 12 10) else w);
          w = (if includes_js k ''bouncer'' then bump w Bouncer (lit 12 10) else w);
          w = (if includes_js k ''slower'' then bump w Slower (lit 12 10) else w)
      in w)"

definition baseDeliveryWeights :: "Bowler \<Rightarrow> DeliveryType Weights" where
  "baseDeliveryWeights b =
     (if isSpin b
      then foldl spinNudge (map (\<lambda>t. (t, dOne)) DELIVERY_TYPES_SPIN) (strengthsOf b)
      else foldl paceNudge (map (\<lambda>t. (t, dOne)) DELIVERY_TYPES_PACE) (strengthsOf b))"

definition baseLengthWeights :: "Bowler \<Rightarrow> PhaseId \<Rightarrow> Length Weights" where
  "baseLengthWeights b phase =
     (let w = map (\<lambda>l. (l, dOne)) LENGTHS;
          w = (case phase of
                 powerplay \<Rightarrow>
                   addTo (addTo (addTo w Good (lit 6 10)) BackOfLength (lit 3 10))
                     Full (lit 3 10)
               | middle \<Rightarrow> addTo (addTo w Good (lit 4 10)) BackOfLength (lit 4 10)
               | death \<Rightarrow>
                   addTo (addTo (addTo w Yorker (lit 16 10)) Full (lit 5 10))
                     Short (lit 3 10));
          w = (if isSpin b then addTo w Good (lit 4 10) else w)
      in w)"

definition baseLineWeights :: "Bowler \<Rightarrow> PhaseId \<Rightarrow> Line Weights" where
  "baseLineWeights b phase =
     (let w = map (\<lambda>l. (l, lit 5 10)) LINES;
          w = addTo w OffStump (lit 8 10);
          w = addTo w MiddleStump (lit 6 10);
          w = addTo w FourthStump (lit 8 10);
          w = addTo w FifthStump (lit 5 10);
          w = (case phase of
                 powerplay \<Rightarrow> addTo (addTo w FourthStump (lit 4 10)) OffStump (lit 3 10)
               | middle \<Rightarrow> w
               | death \<Rightarrow>
                   addTo (addTo (addTo w WideOutsideOff dOne) OutsideOff (lit 6 10))
                     AtBody (lit 4 10));
          w = (if isSpin b
               then addTo (addTo w OutsideOff (lit 4 10)) LegStump (lit 3 10) else w)
      in w)"

record Pools =
  delPool :: "DeliveryType Weights"
  lenPool :: "Length Weights"
  linPool :: "Line Weights"

definition applyPitchModifiers :: "Pools \<Rightarrow> PitchType \<Rightarrow> Pools" where
  "applyPitchModifiers w pitch =
     (let w = (if pitch = Green
               then w\<lparr>delPool := bump (delPool w) CrossSeam (lit 6 10),
                      lenPool := bump (lenPool w) BackOfLength (lit 5 10)\<rparr>
               else w);
          w = (if pitch = Dusty
               then w\<lparr>delPool := bump (bump (delPool w) OffCutter (lit 7 10))
                                   LegCutter (lit 7 10),
                      lenPool := bump (bump (lenPool w) Good (lit 4 10)) Full (lit 2 10)\<rparr>
               else w);
          w = (if pitch = Dry
               then w\<lparr>lenPool := bump (lenPool w) Yorker (lit 5 10),
                      linPool := bump (linPool w) WideOutsideOff (lit 6 10),
                      delPool := bump (delPool w) Slower (lit 4 10)\<rparr>
               else w)
      in w)"

definition buildWeightedPools :: "Bowler \<Rightarrow> PhaseId \<Rightarrow> PitchType \<Rightarrow> Pools" where
  "buildWeightedPools b phase pitch =
     applyPitchModifiers
       \<lparr>delPool = baseDeliveryWeights b,
        lenPool = baseLengthWeights b phase,
        linPool = baseLineWeights b phase\<rparr> pitch"

section \<open>Delivery generation and trap logic (lib/deliveryLogic)\<close>

text \<open>
  The key of a triple is the text \<^verbatim>\<open>type::length::line\<close>. No name contains
  \<^verbatim>\<open>::\<close>, so two keys are equal exactly when the three components are, and the
  key is kept as the tuple.
\<close>

type_synonym Triple = "DeliveryType \<times> Length \<times> Line"

definition key :: "DeliveryType \<Rightarrow> Length \<Rightarrow> Line \<Rightarrow> Triple" where
  "key t l n = (t, l, n)"

definition describePurpose :: "DeliveryType \<Rightarrow> Length \<Rightarrow> Line \<Rightarrow> PhaseId \<Rightarrow> jsstring" where
  "describePurpose t l n phase =
     (if l = Yorker \<and> (n = OutsideOff \<or> n = WideOutsideOff)
        then js ''Wide yorker: deny leverage and force toe-end''
      else if l = Yorker \<and> (n = MiddleStump \<or> n = OffStump \<or> n = LegStump)
        then js ''At- stumps yorker: crush base of off/leg''
      else if t = Bouncer \<or> l = Short
        then (if n = AtBody then js ''Body bouncer: rush the hook/pull for top edge''
              else if n = OffStump then js ''Shoulder-high: glove/edge to ring''
              else js ''Change-up bouncer: upset length expectation'')
      else if t = Outswing \<and> (n = FourthStump \<or> n = OffStump)
        then js ''Shape away at 4th/off stump: draw drive and outside edge''
      else if t = Inswing \<and> (n = MiddleStump \<or> n = LegStump)
        then js ''Bring it in at the stumps: play across, LBW/bowled''
      else if t = CrossSeam \<and> (l = BackOfLength \<or> l = Good)
        then js ''Cross seam into deck: variable bounce for miscues''
      else if t = OffCutter \<or> t = LegCutter
        then js ''Cutter into surface: grip/hold to beat timing''
      else if t = Slower
        then js ''Deceive pace: hit toe/end or sky to deep''
      else if t = OffBreak \<and> n = OutsideOff
        then js ''Tease drive with turn to slip/ring''
      else if t = ArmBall \<and> (n = MiddleStump \<or> n = LegStump)
        then js ''Skid on from arm ball: pad/wood threat''
      else if t = Googly \<and> (n = FourthStump \<or> n = OffStump)
        then js ''Wrong'' @ [0x2019] @ js ''un across bat face: inside edge/lbw''
      else if t = TopSpinner
        then js ''Dip & extra bounce: bat-pad/close-in catch''
      else if phase = death \<and> (n = OutsideOff \<or> n = WideOutsideOff)
        then js ''Death plan: outside-off channel to protect legside power''
      else if phase = powerplay \<and> (n = FourthStump \<or> n = OffStump)
        then js ''New ball channel: challenge outside edge''
      else js (deliveryTypeName t) @ js '' '' @ [0x2022] @ js '' '' @ js (lengthName l)
             @ js '' at '' @ js (lineName n))"

definition step :: "DeliveryType \<Rightarrow> Length \<Rightarrow> Line \<Rightarrow> string \<Rightarrow> PartialItem" where
  "step t l n p = \<lparr>p_type = Some t, p_length = Some l, p_line = Some n, p_purpose = Some (js p)\<rparr>"

record Trap =
  trap_setup :: "PartialItem list"
  trap_payoff :: PartialItem

definition trapForPace :: "PhaseId \<Rightarrow> Trap" where
  "trapForPace phase =
     (if phase = powerplay then
        \<lparr>trap_setup = [step Outswing Good FourthStump ''Set-up: away shape to draw the drive'',
                  step Outswing Good OffStump ''Reinforce away channel''],
         trap_payoff = step Inswing Full MiddleStump ''Payoff: in-ducker at pads/wood''\<rparr>
      else if phase = death then
        \<lparr>trap_setup = [step Standard Yorker WideOutsideOff ''Set-up: wide yorker'',
                  step Standard Yorker OutsideOff ''Repeat wide yorker variant''],
         trap_payoff = step Bouncer Short AtBody ''Payoff: surprise bumper for top edge''\<rparr>
      else
        \<lparr>trap_setup = [step CrossSeam BackOfLength OffStump ''Set-up: deck variation'',
                  step Slower Good OutsideOff ''Change pace and width''],
         trap_payoff = step Inswing Full MiddleStump ''Payoff: in-line at stumps''\<rparr>)"

definition trapForSpin :: "PhaseId \<Rightarrow> Trap" where
  "trapForSpin phase =
     (if phase = powerplay then
        \<lparr>trap_setup = [step OffBreak Good OutsideOff ''Set-up: tease drive vs ring'',
                  step TopSpinner Good OffStump ''Dip & bounce to draw forward''],
         trap_payoff = step ArmBall Full MiddleStump ''Payoff: skid on to pad/wood''\<rparr>
      else if phase = death then
        \<lparr>trap_setup = [step Slider Good OutsideOff ''Flat & quick wide line'',
                  step OffBreak Good FourthStump ''Turn away to keep reaching''],
         trap_payoff = step ArmBall Full LegStump ''Payoff: beat across the line''\<rparr>
      else
        \<lparr>trap_setup = [step OffBreak Good OutsideOff ''Drive temptation with turn risk'',
                  step Googly Good FourthStump ''Opposite turn threat''],
         trap_payoff = step ArmBall Full MiddleStump ''Skid on for lbw/bowled''\<rparr>)"

text \<open>
  The state that \<^verbatim>\<open>drawUnique\<close> closes over: the generator and the set of used keys.
  \<open>None\<close> is the TypeError of \<^verbatim>\<open>pickWeighted\<close> on an empty pool, or of reading
  \<^verbatim>\<open>pool[0][0]\<close> there.
\<close>

record Gen =
  rng :: "32 word"
  used :: "Triple set"

definition orPick :: "'a option \<Rightarrow> ('a \<times> double) list \<Rightarrow> 32 word \<Rightarrow> ('a \<times> 32 word) option" where
  "orPick forced pool g = (case forced of Some v \<Rightarrow> Some (v, g) | None \<Rightarrow> pickWeighted g pool)"

definition firstOf :: "('a \<times> double) list \<Rightarrow> 'a option" where
  "firstOf pool = (case pool of [] \<Rightarrow> None | (x, _) # _ \<Rightarrow> Some x)"

definition fallback :: "Pools \<Rightarrow> PhaseId \<Rightarrow> DeliveryPlanItem option" where
  "fallback ps phase =
     (case firstOf (delPool ps) of None \<Rightarrow> None | Some t \<Rightarrow>
     (case firstOf (lenPool ps) of None \<Rightarrow> None | Some l \<Rightarrow>
     (case firstOf (linPool ps) of None \<Rightarrow> None | Some n \<Rightarrow>
        Some \<lparr>over = 1, dtype = t, len = l, line = n,
              purpose = describePurpose t l n phase\<rparr>)))"

text \<open>
  \<^verbatim>\<open>while (attempts++ < 200)\<close>: the first argument counts the attempts that are left.
  The second component of the result tells whether the item came from the fallback
  after the loop.
\<close>

fun drawLoop :: "nat \<Rightarrow> Pools \<Rightarrow> PhaseId \<Rightarrow> PartialItem option \<Rightarrow> Gen
                 \<Rightarrow> ((DeliveryPlanItem \<times> bool) \<times> Gen) option" where
  "drawLoop 0 ps phase force g =
     (case fallback ps phase of None \<Rightarrow> None | Some d \<Rightarrow> Some ((d, True), g))"
| "drawLoop (Suc left) ps phase force g =
     (case orPick (Option.bind force p_type) (delPool ps) (rng g) of None \<Rightarrow> None
      | Some (t, r1) \<Rightarrow>
     (case orPick (Option.bind force p_length) (lenPool ps) r1 of None \<Rightarrow> None
      | Some (l, r2) \<Rightarrow>
     (case orPick (Option.bind force p_line) (linPool ps) r2 of None \<Rightarrow> None
      | Some (n, r3) \<Rightarrow>
        let k = key t l n in
        if k \<notin> used g
        then Some ((\<lparr>over = 1, dtype = t, len = l, line = n,
                      purpose = (case Option.bind force p_purpose of
                                   Some p \<Rightarrow> p | None \<Rightarrow> describePurpose t l n phase)\<rparr>,
                    False),
                   \<lparr>rng = r3, used = insert k (used g)\<rparr>)
        else drawLoop left ps phase force (g\<lparr>rng := r3\<rparr>))))"

definition drawUnique :: "Pools \<Rightarrow> PhaseId \<Rightarrow> PartialItem option \<Rightarrow> Gen
                          \<Rightarrow> ((DeliveryPlanItem \<times> bool) \<times> Gen) option" where
  "drawUnique ps phase force g = drawLoop 200 ps phase force g"

text \<open>\<^verbatim>\<open>for (let i = 0; i < balls; i++) out.push(drawUnique())\<close>\<close>

fun fill :: "nat \<Rightarrow> Pools \<Rightarrow> PhaseId \<Rightarrow> Gen \<Rightarrow> ((DeliveryPlanItem \<times> bool) list \<times> Gen) option" where
  "fill 0 ps phase g = Some ([], g)"
| "fill (Suc n) ps phase g =
     (case drawUnique ps phase None g of None \<Rightarrow> None
      | Some (d, g1) \<Rightarrow>
     (case fill n ps phase g1 of None \<Rightarrow> None
      | Some (ds, g2) \<Rightarrow> Some (d # ds, g2)))"

definition seedText :: "Bowler \<Rightarrow> PhaseId \<Rightarrow> PitchType \<Rightarrow> jsstring \<Rightarrow> jsstring" where
  "seedText bowler phase pitch seedHint =
     b_id bowler @ js ''|'' @ js (phaseName phase) @ js ''|'' @ js (pitchName pitch)
       @ js ''|'' @ seedHint"

definition seedOf :: "Bowler \<Rightarrow> PhaseId \<Rightarrow> PitchType \<Rightarrow> jsstring \<Rightarrow> 32 word" where
  "seedOf bowler phase pitch seedHint = seedFromString (seedText bowler phase pitch seedHint)"

definition trapOf :: "Bowler \<Rightarrow> PhaseId \<Rightarrow> Trap" where
  "trapOf bowler phase = (if isSpin bowler then trapForSpin phase else trapForPace phase)"

definition trapStart :: "nat \<Rightarrow> nat" where
  "trapStart balls = nat (max 0 (int (balls div 2) - 2))"

text \<open>
  \<open>generateTagged\<close> is \<^verbatim>\<open>generateDeliveries\<close> with each item paired with the flag of
  \<open>drawLoop\<close>; \<open>generateDeliveries\<close> drops the flags. The trap is written at
  \<^verbatim>\<open>out[s]\<close>, \<^verbatim>\<open>out[s + 1]\<close>, \<^verbatim>\<open>out[s + 2]\<close>, indices inside the array when
  \<^verbatim>\<open>balls >= 6\<close>. A trap always has two set-up steps.
\<close>

definition generateTagged :: "Bowler \<Rightarrow> nat \<Rightarrow> PhaseId \<Rightarrow> PitchType \<Rightarrow> jsstring
                              \<Rightarrow> (DeliveryPlanItem \<times> bool) list option" where
  "generateTagged bowler balls phase pitch seedHint =
     (let ps = buildWeightedPools bowler phase pitch;
          trap = trapOf bowler phase;
          g0 = \<lparr>rng = seedOf bowler phase pitch seedHint, used = {}\<rparr>
      in case fill balls ps phase g0 of None \<Rightarrow> None
         | Some (out, g1) \<Rightarrow>
           if 6 \<le> balls then
             (let s = trapStart balls in
              case drawUnique ps phase (Some (trap_setup trap ! 0)) g1 of None \<Rightarrow> None
              | Some (d1, g2) \<Rightarrow>
             (case drawUnique ps phase (Some (trap_setup trap ! 1)) g2 of None \<Rightarrow> None
              | Some (d2, g3) \<Rightarrow>
             (case drawUnique ps phase (Some (trap_payoff trap)) g3 of None \<Rightarrow> None
              | Some (d3, g4) \<Rightarrow> Some (out[s := d1, s + 1 := d2, s + 2 := d3]))))
           else Some out)"

definition generateDeliveries :: "Bowler \<Rightarrow> nat \<Rightarrow> PhaseId \<Rightarrow> PitchType \<Rightarrow> jsstring
                                  \<Rightarrow> DeliveryPlanItem list option" where
  "generateDeliveries bowler balls phase pitch seedHint =
     map_option (map fst) (generateTagged bowler balls phase pitch seedHint)"

section \<open>Over planner (lib/overLogic)\<close>

fun stampFrom :: "nat \<Rightarrow> DeliveryPlanItem list \<Rightarrow> DeliveryPlanItem list" where
  "stampFrom i [] = []"
| "stampFrom i (d # ds) = d\<lparr>over := i div 6 + 1\<rparr> # stampFrom (Suc i) ds"

definition buildOverPlan :: "Bowler \<Rightarrow> nat \<Rightarrow> PhaseId \<Rightarrow> PitchType \<Rightarrow> DeliveryPlanItem list option" where
  "buildOverPlan bowler overs phase pitch =
     (let totalBalls = overs * 6
      in map_option (stampFrom 0)
           (generateDeliveries bowler totalBalls phase pitch (js ''ov:'' @ js (showNat overs))))"

section \<open>The in-page planner (app/page): types\<close>

text \<open>
  The page defines a second planner of its own, with its own taxonomy. Its types carry
  the suffix \<open>P\<close> where the name is already taken above. A delivery type, length or
  line is the key of a weight table there; \<open>wrong_un\<close> is the key spelled with the
  right single quotation mark U+2019.
\<close>

datatype BowlerTypeP = pace | swing | seam | legspin | offspin | leftarm_pace | leftarm_spin

fun bowlerTypeNameP :: "BowlerTypeP \<Rightarrow> string" where
  "bowlerTypeNameP pace = ''pace''"
| "bowlerTypeNameP swing = ''swing''"
| "bowlerTypeNameP seam = ''seam''"
| "bowlerTypeNameP legspin = ''legspin''"
| "bowlerTypeNameP offspin = ''offspin''"
| "bowlerTypeNameP leftarm_pace = ''leftarm-pace''"
| "bowlerTypeNameP leftarm_spin = ''leftarm-spin''"

datatype PitchTypeP = NormalP | GreenP | DustyP | FlatP

fun pitchNameP :: "PitchTypeP \<Rightarrow> string" where
  "pitchNameP NormalP = ''Normal''"
| "pitchNameP GreenP = ''Green''"
| "pitchNameP DustyP = ''Dusty''"
| "pitchNameP FlatP = ''Flat''"

datatype Ball =
    outswing | inswing | seam_ball | cutter | slower_ball | knuckle | bouncer
  | leg_break | googly | top_spinner | wrong_un | off_break | arm_ball | carrom

datatype LengthP = short | back_of_length | good_length | full | yorker | yorker_ish

datatype LineP =
    outside_off | fourth_stump | off_stump | middle_line | leg_stump | at_body
  | fourth_fifth_stump

fun lineNameP :: "LineP \<Rightarrow> string" where
  "lineNameP outside_off = ''outside off''"
| "lineNameP fourth_stump = ''4th stump''"
| "lineNameP off_stump = ''off stump''"
| "lineNameP middle_line = ''middle''"
| "lineNameP leg_stump = ''leg stump''"
| "lineNameP at_body = ''at body''"
| "lineNameP fourth_fifth_stump = ''4th/5th stump''"

record BowlerP =
  idP :: jsstring
  nameP :: jsstring
  countryP :: jsstring
  typeP :: BowlerTypeP
  armP :: Arm
  strengthsP :: "string list"
  strategiesP :: string
  isLegendP :: "bool option"

text \<open>
  A sampled key is \<open>None\<close> when \<^verbatim>\<open>weightedChoice\<close> returns \<^verbatim>\<open>undefined\<close>
  (the first key of a table without keys).
\<close>

record DeliveryPlanItemP =
  overP :: nat
  ballP :: nat
  btypeP :: "Ball option"
  lengthP :: "LengthP option"
  lineP :: "LineP option"
  pitchPurpose :: jsstring

record SpellItem =
  bowlerId :: jsstring
  overs :: int

section \<open>The in-page planner: RNG and choice\<close>

definition hash32 :: "jsstring \<Rightarrow> 32 word" where
  "hash32 str = fold (\<lambda>c h. (h XOR ucast c) * 16777619) str 2166136261"

text \<open>
  \<^verbatim>\<open>mulberry(seed)\<close>: the closure's \<open>t\<close> starts at \<^verbatim>\<open>seed >>> 0\<close> and grows by
  \<^verbatim>\<open>t += 0x6d2b79f5\<close> without being wrapped; the bit operations read it modulo
  \<open>2 ^ 32\<close>. \<open>t\<close> is an integer here, which is what the double holds as long as
  \<open>t < 2 ^ 53\<close>, that is for the first 4.9 million draws of one generator. The value
  drawn is a multiple of \<open>2 ^ - 32\<close> below 1.
\<close>

definition mulberry :: "int \<Rightarrow> rat \<times> int" where
  "mulberry t0 =
     (let t = t0 + 0x6d2b79f5;
          w = (word_of_int t :: 32 word);
          r = (w XOR drop_bit 15 w) * (1 OR w);
          r = r XOR (r + (r XOR drop_bit 7 r) * (61 OR r))
      in (of_int (uint (r XOR drop_bit 14 r)) / 4294967296, t))"

text \<open>
  The weights of this planner are integers below a hundred and a draw is a multiple of
  \<open>2 ^ - 32\<close>, so \<^verbatim>\<open>rng() * total\<close>, every \<^verbatim>\<open>r -= w\<close> and every comparison is
  exact in binary64: the arithmetic is that of the rationals. \<open>disallow\<close> is the list of
  excluded keys, empty when the argument is not passed.
\<close>

type_synonym 'k Table = "('k \<times> int) list"

fun choiceScan :: "rat \<Rightarrow> 'k Table \<Rightarrow> 'k option list \<Rightarrow> 'k option" where
  "choiceScan r [] disallow = None"
| "choiceScan r ((k, v) # rest) disallow =
     (if Some k \<in> set disallow then choiceScan r rest disallow
      else let w = max 0 v in
           if r < of_int w then Some k else choiceScan (r - of_int w) rest disallow)"

definition firstKey :: "'k Table \<Rightarrow> 'k option" where
  "firstKey weights = (case weights of [] \<Rightarrow> None | (k, _) # _ \<Rightarrow> Some k)"

definition weightedChoice :: "int \<Rightarrow> 'k Table \<Rightarrow> 'k option list \<Rightarrow> 'k option \<times> int" where
  "weightedChoice g weights disallow =
     (let total = sum_list (map (\<lambda>(k, v). if Some k \<in> set disallow then 0 else max 0 v) weights);
          (u, g') = mulberry g;
          r = u * of_int total
      in case choiceScan r weights disallow of
           Some k \<Rightarrow> (Some k, g')
         | None \<Rightarrow> (firstKey weights, g'))"

section \<open>The in-page planner: delivery model\<close>

definition hasAny :: "string list \<Rightarrow> string list \<Rightarrow> bool" where
  "hasAny strengths needles =
     (let s = map toLowerCase strengths
      in list_ex (\<lambda>n. list_ex (\<lambda>x. includes_js x n) s) needles)"

datatype PacePrimary = seamP | swingP | mixedP

definition primaryPaceStyle :: "BowlerP \<Rightarrow> string list \<Rightarrow> PacePrimary" where
  "primaryPaceStyle b strengths =
     (let s = map toLowerCase strengths;
          sm = hasAny s [''seam'', ''wobble''];
          sw = hasAny s [''swing'', ''outswing'', ''inswing'']
      in if sm \<and> \<not> sw then seamP
         else if sw \<and> \<not> sm then swingP
         else if sm \<and> sw then mixedP
         else if typeP b = seam then seamP
         else if typeP b = swing \<or> typeP b = leftarm_pace then swingP
         else mixedP)"

datatype SpinPrimary = legS | offS | mixedS

definition primarySpinStyle :: "BowlerP \<Rightarrow> string list \<Rightarrow> SpinPrimary" where
  "primarySpinStyle b strengths =
     (let s = map toLowerCase strengths;
          lg = hasAny s [''leg-break'', ''leg break'', ''googly'', ''wrong''];
          off = hasAny s [''off-break'', ''off break'', ''arm ball'', ''carrom'']
      in if lg \<and> \<not> off then legS
         else if off \<and> \<not> lg then offS
         else if lg \<and> off then mixedS
         else if typeP b = legspin then legS
         else if typeP b = offspin \<or> typeP b = leftarm_spin then offS
         else mixedS)"

text \<open>\<^verbatim>\<open>base[k] += d\<close> on a key of the table.\<close>

definition inc :: "'k Table \<Rightarrow> 'k \<Rightarrow> int \<Rightarrow> 'k Table" where
  "inc w k d = map (\<lambda>(k', v). if k' = k then (k', v + d) else (k', v)) w"

definition incIf :: "bool \<Rightarrow> 'k Table \<Rightarrow> ('k \<times> int) list \<Rightarrow> 'k Table" where
  "incIf c w ds = (if c then foldl (\<lambda>w (k, d). inc w k d) w ds else w)"

definition derivePaceWeights :: "BowlerP \<Rightarrow> PhaseId \<Rightarrow> PitchTypeP \<Rightarrow> string list \<Rightarrow> string
                                 \<Rightarrow> Ball Table" where
  "derivePaceWeights b phase pitch strengthsIn strategy =
     (let strengths = map toLowerCase strengthsIn;
          primary = primaryPaceStyle b strengths;
          base = [(outswing, if phase = powerplay then 10 else 4),
                  (inswing, if phase = powerplay then 9 else 4),
                  (seam_ball, if phase = middle then 14 else 10),
                  (cutter, if phase = middle then 8 else 6),
                  (slower_ball, if phase = middle then 8 else 9),
                  (knuckle, if phase = death then 5 else 2),
                  (bouncer, if phase = death then 8 else 6)];
          base = (if primary = seamP
                    then incIf True base [(seam_ball, 12), (outswing, 3), (inswing, 3), (cutter, 2)]
                  else if primary = swingP
                    then incIf True base [(outswing, 10), (inswing, 10), (seam_ball, 4)]
                  else incIf True base [(seam_ball, 6), (outswing, 6), (inswing, 5)]);
          base = (if pitch = GreenP
                    then incIf True base [(seam_ball, 6), (outswing, 3), (inswing, 2), (bouncer, 2)]
                  else if pitch = DustyP
                    then incIf True base [(cutter, 5), (slower_ball, 4)]
                  else if pitch = FlatP
                    then incIf True base [(slower_ball, 2), (knuckle, 2), (bouncer, 1)]
                  else base);
          base = incIf (armP b = L) base [(inswing, 2)];
          base = incIf (hasAny strengths [''wobble'', ''seam'']) base [(seam_ball, 6)];
          base = incIf (hasAny strengths [''outswing'']) base [(outswing, 6)];
          base = incIf (hasAny strengths [''inswing'']) base [(inswing, 6)];
          base = incIf (hasAny strengths [''swing'']) base [(outswing, 4), (inswing, 4)];
          base = incIf (hasAny strengths [''cutter'']) base [(cutter, 6)];
          base = incIf (hasAny strengths [''slower'']) base [(slower_ball, 6)];
          base = incIf (hasAny strengths [''knuckle'']) base [(knuckle, 5)];
          base = incIf (hasAny strengths [''bouncer'']) base [(bouncer, 5)];
          s = toLowerCase strategy;
          base = incIf (includes_js s ''hard length'' \<or> includes_js s ''4th stump'') base
                   [(seam_ball, 6), (outswing, 2)];
          base = incIf (includes_js s ''swing'') base [(outswing, 3), (inswing, 3)];
          base = incIf (includes_js s ''bounce'' \<or> includes_js s ''short'') base [(bouncer, 4)];
          base = incIf (includes_js s ''change'' \<or> includes_js s ''variation''
                        \<or> includes_js s ''cutter'') base [(cutter, 4)]
      in base)"

text \<open>Allowed delivery families by bowler type.\<close>

definition allowedTypesFor :: "BowlerP \<Rightarrow> Ball set" where
  "allowedTypesFor b =
     (if typeP b = offspin \<or> typeP b = leftarm_spin
        then {off_break, arm_ball, carrom, top_spinner}
      else if typeP b = legspin
        then {leg_break, googly, top_spinner}
      else {outswing, inswing, seam_ball, cutter, slower_ball, knuckle, bouncer})"

text \<open>
  \<open>spinBaseWeights\<close> is \<^verbatim>\<open>deriveSpinWeights\<close> up to its last block.
  The needle list of the wrong'un boost also holds the spelling with U+2019. A text that
  contains it contains \<^verbatim>\<open>wrong\<close> as well, so leaving it out does not change
  \<open>hasAny\<close>.
\<close>

definition spinBaseWeights :: "BowlerP \<Rightarrow> PhaseId \<Rightarrow> PitchTypeP \<Rightarrow> string list \<Rightarrow> string
                               \<Rightarrow> Ball Table" where
  "spinBaseWeights b phase pitch strengthsIn strategy =
     (let strengths = map toLowerCase strengthsIn;
          primary = primarySpinStyle b strengths;
          base = [(leg_break, 12),
                  (googly, if phase = middle then 8 else 7),
                  (top_spinner, if phase = powerplay then 8 else 7),
                  (wrong_un, if phase = death then 7 else 6),
                  (off_break, 12),
                  (arm_ball, if phase = powerplay then 9 else 7),
                  (carrom, if phase = middle then 7 else 6)];
          base = (if primary = legS
                    then incIf True base [(leg_break, 10), (googly, 8), (top_spinner, 3)]
                  else if primary = offS
                    then incIf True base [(off_break, 10), (arm_ball, 8), (carrom, 3)]
                  else incIf True base [(leg_break, 6), (off_break, 6), (googly, 4), (arm_ball, 4)]);
          base = (if pitch = DustyP
                    then incIf True base [(leg_break, 6), (off_break, 6), (top_spinner, 2)]
                  else if pitch = GreenP
                    then incIf True base [(arm_ball, 3), (off_break, 2)]
                  else if pitch = FlatP
                    then incIf True base [(top_spinner, 4), (wrong_un, 2)]
                  else base);
          base = incIf (hasAny strengths [''leg-break'', ''leg break'']) base [(leg_break, 8)];
          base = incIf (hasAny strengths [''googly'']) base [(googly, 8)];
          base = incIf (hasAny strengths [''top-spinner'', ''top spinner'']) base [(top_spinner, 6)];
          base = incIf (hasAny strengths [''wrong'', ''wrongun'']) base [(wrong_un, 6)];
          base = incIf (hasAny strengths [''off-break'', ''off break'']) base [(off_break, 8)];
          base = incIf (hasAny strengths [''arm ball'']) base [(arm_ball, 8)];
          base = incIf (hasAny strengths [''carrom'']) base [(carrom, 8)];
          st = toLowerCase strategy;
          base = incIf (includes_js st ''attack stumps'') base [(arm_ball, 5), (top_spinner, 3)];
          base = incIf (includes_js st ''slip'' \<or> includes_js st ''short''
                        \<or> includes_js st ''third'') base
                   [(leg_break, 3), (off_break, 3), (top_spinner, 2)];
          base = incIf (typeP b = leftarm_spin) base [(arm_ball, 3), (off_break, 3)]
      in base)"

text \<open>The last block of \<^verbatim>\<open>deriveSpinWeights\<close>: clamp to family.\<close>

definition deriveSpinWeights :: "BowlerP \<Rightarrow> PhaseId \<Rightarrow> PitchTypeP \<Rightarrow> string list \<Rightarrow> string
                                 \<Rightarrow> Ball Table" where
  "deriveSpinWeights b phase pitch strengthsIn strategy =
     (let base = spinBaseWeights b phase pitch strengthsIn strategy;
          allowed = allowedTypesFor b
      in map (\<lambda>(k, v). if k \<notin> allowed then (k, 0) else (k, v)) base)"

definition isSpinP :: "BowlerP \<Rightarrow> bool" where
  "isSpinP b = includes_js (bowlerTypeNameP (typeP b)) ''spin''"

definition lengthWeightsFor :: "BowlerP \<Rightarrow> PhaseId \<Rightarrow> PitchTypeP \<Rightarrow> LengthP Table" where
  "lengthWeightsFor bowler phase pitch =
     (let base = [(short, if phase = death then 6 else 7),
                  (back_of_length, if phase = powerplay then 8 else 9),
                  (good_length, 11),
                  (full, if phase = powerplay then 9 else 8),
                  (yorker, if phase = death then 14 else 3),
                  (yorker_ish, 5)];
          base = (if pitch = GreenP
                    then incIf True base [(back_of_length, 3), (good_length, 2)]
                  else if pitch = DustyP
                    then incIf True base [(back_of_length, 2), (full, 1)]
                  else if pitch = FlatP
                    then incIf True base [(yorker, 6), (good_length, - 2)]
                  else base);
          base = incIf (isSpinP bowler) base [(short, - 4), (yorker, - 6), (yorker_ish, - 3)]
      in base)"

definition lineWeightsFor :: "BowlerP \<Rightarrow> PhaseId \<Rightarrow> PitchTypeP \<Rightarrow> LineP Table" where
  "lineWeightsFor bowler phase pitch =
     (let base = [(outside_off, 8),
                  (fourth_stump, 12),
                  (off_stump, 10),
                  (middle_line, 7),
                  (leg_stump, 6),
                  (at_body, if phase = death then 8 else 6),
                  (fourth_fifth_stump, if phase = death then 10 else 6)];
          base = (if isSpinP bowler
                    then incIf True base [(leg_stump, 3), (outside_off, 2)]
                  else incIf True base [(fourth_stump, 2)]);
          base = incIf (pitch = FlatP) base [(fourth_fifth_stump, 3), (middle_line, 1)]
      in base)"

text \<open>
  \<^verbatim>\<open>purposeFor\<close>. In the yorker case the line is read with \<^verbatim>\<open>line.includes\<close>,
  a TypeError on \<^verbatim>\<open>undefined\<close>: \<open>None\<close>.
\<close>

definition purposeFor :: "Ball option \<Rightarrow> LineP option \<Rightarrow> LengthP option \<Rightarrow> jsstring option" where
  "purposeFor ballType lineV lengthV =
     (if lengthV = Some yorker then
        (case lineV of
           None \<Rightarrow> None
         | Some l \<Rightarrow> Some (if includes_js (lineNameP l) ''4th'' \<or> l = outside_off
                           then js ''deny arc; toe crusher''
                           else js ''base of stumps / toes''))
      else Some (
        if ballType = Some outswing then js ''draw drive, find edge''
        else if ballType = Some inswing then js ''attack pads, bowled/LBW''
        else if ballType = Some seam_ball then js ''nibble outside edge''
        else if ballType = Some cutter then js ''hold in the pitch, mistime''
        else if ballType = Some slower_ball then js ''beat swing, hit to field''
        else if ballType = Some knuckle then js ''deceive pace, miscued loft''
        else if ballType = Some bouncer then js ''push back, surprise top-edge''
        else if ballType = Some leg_break then js ''draw drive, slip in play''
        else if ballType = Some googly then js ''beat inside edge; LBW/bowled''
        else if ballType = Some top_spinner then js ''extra bounce for splice''
        else if ballType = Some wrong_un then js ''surprise wicket ball''
        else if ballType = Some off_break then js ''drag to infield, catch''
        else if ballType = Some arm_ball then js ''skid at stumps/pads''
        else if ballType = Some carrom then js ''induce outside edge''
        else if lengthV = Some good_length \<and> lineV = Some fourth_stump then js ''outside edge chance''
        else if lengthV = Some short \<and> lineV = Some at_body then js ''cramp for room''
        else js ''create wicket chance / dot ball''))"

section \<open>The in-page planner: buildVariedPlan\<close>

text \<open>
  The three tables cloned for one ball. \<open>plus\<close> is \<^verbatim>\<open>w[k] = (w[k] || 0) + d\<close>, which
  appends the key when it is missing; \<open>plusIfPresent\<close> is
  \<^verbatim>\<open>if (w[k] != null) w[k] += d\<close>.
\<close>

record Local =
  localType :: "Ball Table"
  localLength :: "LengthP Table"
  localLine :: "LineP Table"

definition plus :: "'k Table \<Rightarrow> 'k \<Rightarrow> int \<Rightarrow> 'k Table" where
  "plus w k d = assign w k ((case map_of w k of None \<Rightarrow> 0 | Some v \<Rightarrow> v) + d)"

definition plusIfPresent :: "'k Table \<Rightarrow> 'k \<Rightarrow> int \<Rightarrow> 'k Table" where
  "plusIfPresent w k d = (if map_of w k \<noteq> None then inc w k d else w)"

definition addType :: "Ball \<Rightarrow> int \<Rightarrow> Local \<Rightarrow> Local" where
  "addType k d l = l\<lparr>localType := plus (localType l) k d\<rparr>"

definition addLength :: "LengthP \<Rightarrow> int \<Rightarrow> Local \<Rightarrow> Local" where
  "addLength k d l = l\<lparr>localLength := plus (localLength l) k d\<rparr>"

definition addLine :: "LineP \<Rightarrow> int \<Rightarrow> Local \<Rightarrow> Local" where
  "addLine k d l = l\<lparr>localLine := plus (localLine l) k d\<rparr>"

definition whenever :: "bool \<Rightarrow> (Local \<Rightarrow> Local) list \<Rightarrow> Local \<Rightarrow> Local" where
  "whenever c fs l = (if c then fold (\<lambda>f. f) fs l else l)"

text \<open>(A) Clamp the delivery family to the bowler type, with the safety entry.\<close>

definition clampFamily :: "BowlerP \<Rightarrow> Ball Table \<Rightarrow> Ball Table" where
  "clampFamily bowler ballWeights =
     (let t = filter (\<lambda>(k, v). k \<in> allowedTypesFor bowler) ballWeights
      in if t = [] then (if isSpinP bowler then [(off_break, 1)] else [(seam_ball, 1)]) else t)"

text \<open>(B) Phase-aware wicket-trap patterns for pace, pulses for spin.\<close>

definition pacePulses :: "BowlerP \<Rightarrow> PhaseId \<Rightarrow> nat \<Rightarrow> Local \<Rightarrow> Local" where
  "pacePulses bowler phase ball l0 =
     (let isPP = (phase = powerplay); isMid = (phase = middle); isDeath = (phase = death);
          l = whenever (ball = 6 \<or> (isDeath \<and> (ball = 3 \<or> ball = 6)))
                [addLength yorker 10, addLine fourth_fifth_stump 6, addType bouncer 2] l0;
          l = whenever (typeP bowler = seam \<and>
                        ((isPP \<and> (ball = 1 \<or> ball = 2)) \<or> (isDeath \<and> (ball = 3 \<or> ball = 6))
                         \<or> ball = 6))
                [addType outswing 2, addType inswing 2] l
      in if isPP then
           (let l = whenever (ball = 1 \<or> ball = 2)
                      [addType outswing 5, addType inswing 3, addLength full 5,
                       addLine fourth_stump 5, addLine off_stump 3] l;
                l = whenever (ball = 3 \<or> ball = 4)
                      [addType seam_ball 3, addLength back_of_length 3] l;
                l = whenever ((ball = 3 \<or> ball = 4) \<and> ball = 4)
                      [addType bouncer 3, addLength short 3, addLine at_body 4] l;
                l = whenever (ball = 5 \<or> ball = 6)
                      [addLength yorker 6, addLine fourth_fifth_stump 4, addLine off_stump 2,
                       addType cutter 2, addType seam_ball 2] l
            in l)
         else if isMid then
           (let l = whenever (ball = 1 \<or> ball = 2)
                      [addType seam_ball 4, addLength back_of_length 4, addLine fourth_stump 3] l;
                l = whenever (ball = 3 \<or> ball = 4)
                      [addType cutter 5, addType slower_ball 4, addLine outside_off 3] l;
                l = whenever (ball = 5) [addType bouncer 3, addLine at_body 3] l;
                l = whenever (ball = 6)
                      [addLength yorker 6, addLine off_stump 3, addLine fourth_fifth_stump 3] l
            in l)
         else if isDeath then
           (let l = whenever (ball = 1 \<or> ball = 4)
                      [addLength yorker 8, addLine fourth_fifth_stump 6] l;
                l = whenever (ball = 2 \<or> ball = 5)
                      [addType bouncer 6, addLength short 5, addLine at_body 5] l;
                l = whenever (ball = 3 \<or> ball = 6) [addLength yorker 8, addLine off_stump 6] l
            in l)
         else l)"

definition spinPulses :: "nat \<Rightarrow> Local \<Rightarrow> Local" where
  "spinPulses ball l =
     (if ball = 3 \<or> ball = 6
      then l\<lparr>localType :=
               plusIfPresent (plusIfPresent (plusIfPresent (localType l) googly 6) top_spinner 4)
                 arm_ball 3\<rparr>
      else l)"

text \<open>(C) Prevent three in a row of the same type.\<close>

definition disallowFor :: "Ball option list \<Rightarrow> Ball option list" where
  "disallowFor recentTypes =
     (case rev recentTypes of
        lastT # prevT # _ \<Rightarrow> (if lastT = prevT then [lastT] else [])
      | _ \<Rightarrow> [])"

definition pushRecent :: "Ball option list \<Rightarrow> Ball option \<Rightarrow> Ball option list" where
  "pushRecent recentTypes t =
     (let r = recentTypes @ [t] in if 2 < length r then tl r else r)"

text \<open>
  The state of the loop: the generator and the last two types. \<open>localFor\<close> is the
  cloning, clamping and pulsing of the three tables for one ball, steps (A) and (B);
  \<open>coherence\<close> is the block of coherence rules that comes
  after the three draws; a spinner's short ball costs one more draw, compared with
  \<^verbatim>\<open>0.6\<close>. That literal is the double just below \<open>3 / 5\<close>, and no multiple of
  \<open>2 ^ - 32\<close> lies between the two, so the comparison is the one with \<open>6 / 10\<close>.
\<close>

record Loop =
  gen :: int
  recent :: "Ball option list"

definition coherence :: "bool \<Rightarrow> Ball option \<Rightarrow> LengthP option \<Rightarrow> LineP option \<Rightarrow> int
                         \<Rightarrow> LengthP option \<times> LineP option \<times> int" where
  "coherence spin ballType pickedLength pickedLine g =
     (let pickedLine = (if ballType = Some bouncer then Some at_body else pickedLine);
          (pickedLength, g') =
             (if spin \<and> pickedLength = Some short
              then (let (u, g') = mulberry g
                    in (if u < 6 / 10 then Some back_of_length else pickedLength, g'))
              else (pickedLength, g));
          pickedLine =
             (if pickedLength = Some yorker
                   \<and> pickedLine \<notin> {Some fourth_fifth_stump, Some off_stump, Some outside_off}
              then Some off_stump else pickedLine)
      in (pickedLength, pickedLine, g'))"

definition localFor :: "BowlerP \<Rightarrow> PhaseId \<Rightarrow> Ball Table \<Rightarrow> LengthP Table \<Rightarrow> LineP Table
                        \<Rightarrow> nat \<Rightarrow> Local" where
  "localFor bowler phase ballWeights lengthWeights lineWeights ball =
     (let l = \<lparr>localType = clampFamily bowler ballWeights,
               localLength = lengthWeights,
               localLine = lineWeights\<rparr>
      in if \<not> isSpinP bowler then pacePulses bowler phase ball l else spinPulses ball l)"

definition ballAt :: "BowlerP \<Rightarrow> PhaseId \<Rightarrow> Ball Table \<Rightarrow> LengthP Table \<Rightarrow> LineP Table
                      \<Rightarrow> nat \<Rightarrow> Loop \<Rightarrow> (DeliveryPlanItemP \<times> Loop) option" where
  "ballAt bowler phase ballWeights lengthWeights lineWeights i st =
     (let ov = i div 6 + 1;
          ball = i mod 6 + 1;
          l = localFor bowler phase ballWeights lengthWeights lineWeights ball;
          disallow = disallowFor (recent st);
          (ballType, g1) = weightedChoice (gen st) (localType l) disallow;
          recentTypes = pushRecent (recent st) ballType;
          (pickedLength, g2) = weightedChoice g1 (localLength l) [];
          (pickedLine, g3) = weightedChoice g2 (localLine l) [];
          (pickedLength, pickedLine, g4) =
             coherence (isSpinP bowler) ballType pickedLength pickedLine g3
      in case purposeFor ballType pickedLine pickedLength of
           None \<Rightarrow> None
         | Some p \<Rightarrow>
             Some (\<lparr>overP = ov, ballP = ball, btypeP = ballType, lengthP = pickedLength,
                    lineP = pickedLine, pitchPurpose = p\<rparr>,
                   \<lparr>gen = g4, recent = recentTypes\<rparr>))"

text \<open>\<^verbatim>\<open>for (let i = 0; i < totalBalls; i++)\<close>: the first argument is \<open>totalBalls - i\<close>.\<close>

fun planFrom :: "nat \<Rightarrow> BowlerP \<Rightarrow> PhaseId \<Rightarrow> Ball Table \<Rightarrow> LengthP Table \<Rightarrow> LineP Table
                 \<Rightarrow> nat \<Rightarrow> Loop \<Rightarrow> DeliveryPlanItemP list option" where
  "planFrom 0 bowler phase bw lw nw i st = Some []"
| "planFrom (Suc n) bowler phase bw lw nw i st =
     (case ballAt bowler phase bw lw nw i st of None \<Rightarrow> None
      | Some (d, st') \<Rightarrow>
     (case planFrom n bowler phase bw lw nw (Suc i) st' of None \<Rightarrow> None
      | Some ds \<Rightarrow> Some (d # ds)))"

definition seedTextP :: "BowlerP \<Rightarrow> PhaseId \<Rightarrow> PitchTypeP \<Rightarrow> nat \<Rightarrow> jsstring \<Rightarrow> jsstring" where
  "seedTextP bowler phase pitch ovs salt =
     idP bowler @ js ''|'' @ js (phaseName phase) @ js ''|'' @ js (pitchNameP pitch)
       @ js ''|'' @ js (showNat ovs) @ js ''|'' @ salt"

definition seedOfP :: "BowlerP \<Rightarrow> PhaseId \<Rightarrow> PitchTypeP \<Rightarrow> nat \<Rightarrow> jsstring \<Rightarrow> 32 word" where
  "seedOfP bowler phase pitch ovs salt = hash32 (seedTextP bowler phase pitch ovs salt)"

definition ballWeightsOf :: "BowlerP \<Rightarrow> PhaseId \<Rightarrow> PitchTypeP \<Rightarrow> Ball Table" where
  "ballWeightsOf bowler phase pitch =
     (let bStrengths = map toLowerCase (strengthsP bowler);
          bStrategy = toLowerCase (strategiesP bowler)
      in if isSpinP bowler
         then deriveSpinWeights bowler phase pitch bStrengths bStrategy
         else derivePaceWeights bowler phase pitch bStrengths bStrategy)"

definition buildVariedPlan :: "BowlerP \<Rightarrow> nat \<Rightarrow> PhaseId \<Rightarrow> PitchTypeP \<Rightarrow> jsstring
                               \<Rightarrow> DeliveryPlanItemP list option" where
  "buildVariedPlan bowler ovs phase pitch salt =
     (let totalBalls = max 1 ovs * 6;
          seed = seedOfP bowler phase pitch ovs salt
      in planFrom totalBalls bowler phase
           (ballWeightsOf bowler phase pitch)
           (lengthWeightsFor bowler phase pitch)
           (lineWeightsFor bowler phase pitch)
           0 \<lparr>gen = uint seed, recent = []\<rparr>)"

section \<open>The in-page planner: spell planner\<close>

text \<open>
  \<^verbatim>\<open>buildSpellPlan\<close> closes over the roster of the page, a parameter here. The queue
  holds each item with its remaining overs, \<^verbatim>\<open>Math.max(0, x.overs || 0)\<close>.
\<close>

type_synonym Queue = "(jsstring \<times> nat) list"

definition initQueue :: "SpellItem list \<Rightarrow> Queue" where
  "initQueue s = map (\<lambda>x. (bowlerId x, nat (max 0 (overs x)))) s"

text \<open>One pass of the inner \<^verbatim>\<open>for\<close> loop: the ids pushed and the queue after it.\<close>

fun pass :: "Queue \<Rightarrow> jsstring list \<times> Queue" where
  "pass [] = ([], [])"
| "pass ((b, remaining) # q) =
     (let (order, q') = pass q
      in if 0 < remaining then (b # order, (b, remaining - 1) # q') else (order, (b, remaining) # q'))"

definition totalRemaining :: "Queue \<Rightarrow> nat" where
  "totalRemaining q = sum_list (map snd q)"

function roundRobin :: "Queue \<Rightarrow> jsstring list" where
  "roundRobin q =
     (if list_ex (\<lambda>x. 0 < snd x) q
      then (let (order, q') = pass q in order @ roundRobin q')
      else [])"
  by pat_completeness auto
termination
proof (relation "measure totalRemaining")
  show "wf (measure totalRemaining)" by simp
next
  fix q :: Queue and x :: "jsstring list \<times> Queue" and xa :: "jsstring list" and y :: Queue
  assume ex: "list_ex (\<lambda>x. 0 < snd x) q" and x: "x = pass q" and p: "(xa, y) = x"
  have le: "totalRemaining (snd (pass r)) \<le> totalRemaining r" for r
    by (induction r) (auto simp: totalRemaining_def Let_def split: prod.splits)
  have dec: "list_ex (\<lambda>x. 0 < snd x) r \<Longrightarrow> totalRemaining (snd (pass r)) < totalRemaining r" for r
  proof (induction r)
    case Nil
    then show ?case by simp
  next
    case (Cons a r)
    obtain b n where a: "a = (b, n)" by (cases a)
    show ?case
    proof (cases "0 < n")
      case True
      then show ?thesis using le[of r]
        by (auto simp: a totalRemaining_def Let_def split: prod.splits)
    next
      case False
      with Cons.prems have "list_ex (\<lambda>x. 0 < snd x) r" by (simp add: a)
      from Cons.IH[OF this] show ?thesis using False
        by (auto simp: a totalRemaining_def Let_def split: prod.splits)
    qed
  qed
  from dec[OF ex] x p show "(y, q) \<in> measure totalRemaining"
    by (metis in_measure snd_conv)
qed

definition getBowlerById :: "BowlerP list \<Rightarrow> jsstring \<Rightarrow> BowlerP option" where
  "getBowlerById roster i = find (\<lambda>b. idP b = i) roster"

record SpellPlan =
  plan :: "DeliveryPlanItemP list"
  overToBowler :: "nat \<rightharpoonup> jsstring"

text \<open>\<^verbatim>\<open>order.forEach((bowlerId, idx) => ...)\<close>, from index \<open>idx\<close> on.\<close>

fun spellFrom :: "BowlerP list \<Rightarrow> PhaseId \<Rightarrow> PitchTypeP \<Rightarrow> nat \<Rightarrow> jsstring list \<Rightarrow> SpellPlan
                  \<Rightarrow> SpellPlan option" where
  "spellFrom roster ph pt idx [] acc = Some acc"
| "spellFrom roster ph pt idx (bId # rest) acc =
     (let overNum = idx + 1 in
      case getBowlerById roster bId of
        None \<Rightarrow> spellFrom roster ph pt (Suc idx) rest acc
      | Some b \<Rightarrow>
         (case buildVariedPlan b 1 ph pt (js ''over:'' @ js (showNat overNum)) of
            None \<Rightarrow> None
          | Some oneOver \<Rightarrow>
              spellFrom roster ph pt (Suc idx) rest
                \<lparr>plan = plan acc @ map (\<lambda>p. p\<lparr>overP := overNum\<rparr>) oneOver,
                 overToBowler = (overToBowler acc)(overNum \<mapsto> bId)\<rparr>))"

definition scheduleOrder :: "SpellItem list \<Rightarrow> jsstring list" where
  "scheduleOrder s = roundRobin (initQueue s)"

definition buildSpellPlan :: "BowlerP list \<Rightarrow> SpellItem list \<Rightarrow> PhaseId \<Rightarrow> PitchTypeP
                              \<Rightarrow> SpellPlan option" where
  "buildSpellPlan roster s ph pt =
     spellFrom roster ph pt 0 (scheduleOrder s) \<lparr>plan = [], overToBowler = Map.empty\<rparr>"

section \<open>Vocabulary of the properties\<close>

definition keys :: "('k \<times> 'v) list \<Rightarrow> 'k list" where
  "keys w = map fst w"

definition pitchExtras :: "PitchType \<Rightarrow> DeliveryType list" where
  "pitchExtras pitch =
     (case pitch of Normal \<Rightarrow> [] | Green \<Rightarrow> [CrossSeam] | Dusty \<Rightarrow> [OffCutter, LegCutter]
      | Dry \<Rightarrow> [Slower])"

definition nonEmptyPools :: "Pools \<Rightarrow> bool" where
  "nonEmptyPools ps = (delPool ps \<noteq> [] \<and> lenPool ps \<noteq> [] \<and> linPool ps \<noteq> [])"

definition tripleOf :: "DeliveryPlanItem \<Rightarrow> Triple" where
  "tripleOf d = key (dtype d) (len d) (line d)"

definition freshTriples :: "(DeliveryPlanItem \<times> bool) list \<Rightarrow> Triple list" where
  "freshTriples ds = map (tripleOf \<circ> fst) (filter (\<lambda>x. \<not> snd x) ds)"

definition weightOf :: "'k option list \<Rightarrow> 'k \<times> int \<Rightarrow> int" where
  "weightOf disallow p = (if Some (fst p) \<in> set disallow then 0 else max 0 (snd p))"

definition positive :: "'k Table \<Rightarrow> bool" where
  "positive w = list_all (\<lambda>p. 0 < snd p) w"

definition tableOK :: "BowlerP \<Rightarrow> Ball Table \<Rightarrow> bool" where
  "tableOK b w = (distinct (keys w) \<and> set (keys w) \<subseteq> allowedTypesFor b \<and> positive w \<and> 2 \<le> length (keys w))"

definition paceKeys :: "Ball list" where
  "paceKeys = [outswing, inswing, seam_ball, cutter, slower_ball, knuckle, bouncer]"

definition spinKeys :: "Ball list" where
  "spinKeys = [leg_break, googly, top_spinner, wrong_un, off_break, arm_ball, carrom]"

definition coherentItem :: "DeliveryPlanItemP \<Rightarrow> bool" where
  "coherentItem d =
     ((lengthP d = Some yorker \<longrightarrow>
         lineP d \<in> {Some fourth_fifth_stump, Some off_stump, Some outside_off})
      \<and> (btypeP d = Some bouncer \<and> lengthP d \<noteq> Some yorker \<longrightarrow> lineP d = Some at_body))"

fun noThreeInARow :: "'a list \<Rightarrow> bool" where
  "noThreeInARow (x # y # z # rest) = (\<not> (x = y \<and> y = z) \<and> noThreeInARow (y # z # rest))"
| "noThreeInARow _ = True"

definition familyOf :: "Bowler \<Rightarrow> DeliveryType list" where
  "familyOf b = (if isSpin b then DELIVERY_TYPES_SPIN else DELIVERY_TYPES_PACE)"

definition outsideWindow :: "nat \<Rightarrow> 'a list \<Rightarrow> 'a list" where
  "outsideWindow balls xs =
     (if 6 \<le> balls then take (trapStart balls) xs @ drop (trapStart balls + 3) xs else xs)"

section \<open>The lib planner: pools, draws and output length\<close>

lemma keys_addTo: "keys (addTo w k x) = keys w"
  by (induction w) (auto simp: keys_def addTo_def)

lemma keys_assign: "keys (assign w k v) = (if k \<in> set (keys w) then keys w else keys w @ [k])"
proof (induction w)
  case Nil
  show ?case by (simp add: keys_def)
next
  case (Cons p w)
  obtain k' v' where p: "p = (k', v')" by (cases p)
  show ?case using Cons by (simp add: keys_def p)
qed

lemma keys_const: "keys (map (\<lambda>t. (t, x)) ts) = ts"
  by (simp add: keys_def comp_def)

lemma keys_bump: "keys (bump w k x) = (if k \<in> set (keys w) then keys w else keys w @ [k])"
  by (simp add: bump_def keys_assign)

lemma keys_spinNudge: "keys w = DELIVERY_TYPES_SPIN \<Longrightarrow> keys (spinNudge w s) = DELIVERY_TYPES_SPIN"
  by (simp add: spinNudge_def Let_def keys_bump DELIVERY_TYPES_SPIN_def)

lemma keys_paceNudge: "keys w = DELIVERY_TYPES_PACE \<Longrightarrow> keys (paceNudge w s) = DELIVERY_TYPES_PACE"
  by (simp add: paceNudge_def Let_def keys_bump keys_addTo DELIVERY_TYPES_PACE_def)

lemma keys_foldl_spin: "keys w = DELIVERY_TYPES_SPIN \<Longrightarrow> keys (foldl spinNudge w ss) = DELIVERY_TYPES_SPIN"
  by (induction ss arbitrary: w) (simp_all add: keys_spinNudge)

lemma keys_foldl_pace: "keys w = DELIVERY_TYPES_PACE \<Longrightarrow> keys (foldl paceNudge w ss) = DELIVERY_TYPES_PACE"
  by (induction ss arbitrary: w) (simp_all add: keys_paceNudge)

lemma keys_baseDeliveryWeights:
  "keys (baseDeliveryWeights b) = (if isSpin b then DELIVERY_TYPES_SPIN else DELIVERY_TYPES_PACE)"
  by (simp add: baseDeliveryWeights_def keys_foldl_spin keys_foldl_pace keys_const)

lemma keys_baseLengthWeights: "keys (baseLengthWeights b phase) = LENGTHS"
  by (cases phase) (simp_all add: baseLengthWeights_def Let_def keys_addTo keys_const)

lemma keys_baseLineWeights: "keys (baseLineWeights b phase) = LINES"
  by (cases phase) (simp_all add: baseLineWeights_def Let_def keys_addTo keys_const)

lemma keys_delPool:
  "keys (delPool (buildWeightedPools b phase pitch)) =
     (if isSpin b then DELIVERY_TYPES_SPIN @ pitchExtras pitch else DELIVERY_TYPES_PACE)"
  by (cases pitch)
     (simp_all add: buildWeightedPools_def applyPitchModifiers_def Let_def keys_bump
        keys_baseDeliveryWeights pitchExtras_def DELIVERY_TYPES_SPIN_def DELIVERY_TYPES_PACE_def)

lemma keys_lenPool: "keys (lenPool (buildWeightedPools b phase pitch)) = LENGTHS"
  by (cases pitch)
     (simp_all add: buildWeightedPools_def applyPitchModifiers_def Let_def keys_bump
        keys_baseLengthWeights LENGTHS_def)

lemma keys_linPool: "keys (linPool (buildWeightedPools b phase pitch)) = LINES"
  by (cases pitch)
     (simp_all add: buildWeightedPools_def applyPitchModifiers_def Let_def keys_bump
        keys_baseLineWeights LINES_def)

lemma pickScan_mem: "pickScan r items = Some x \<Longrightarrow> x \<in> set (keys items)"
proof (induction items arbitrary: r)
  case Nil
  then show ?case by simp
next
  case (Cons p items)
  obtain it w where p: "p = (it, w)" by (cases p)
  show ?case
  proof (cases "le0 (fsub r w)")
    case True
    with Cons.prems show ?thesis by (simp add: p keys_def)
  next
    case False
    with Cons.prems have "pickScan (fsub r w) items = Some x" by (simp add: p)
    then have "x \<in> set (keys items)" by (rule Cons.IH)
    then show ?thesis by (simp add: keys_def)
  qed
qed

lemma pickWeighted_mem: "pickWeighted g items = Some (x, g') \<Longrightarrow> x \<in> set (keys items)"
  by (auto simp: pickWeighted_def Let_def keys_def split: prod.splits option.splits if_splits
           dest!: pickScan_mem[unfolded keys_def])

lemma pickWeighted_Some: "items \<noteq> [] \<Longrightarrow> \<exists>x g'. pickWeighted g items = Some (x, g')"
  by (auto simp: pickWeighted_def Let_def split: prod.splits option.splits)

lemma nonEmptyPools_build: "nonEmptyPools (buildWeightedPools b phase pitch)"
proof -
  have "keys (delPool (buildWeightedPools b phase pitch)) \<noteq> []"
    by (simp add: keys_delPool DELIVERY_TYPES_SPIN_def DELIVERY_TYPES_PACE_def)
  moreover have "keys (lenPool (buildWeightedPools b phase pitch)) \<noteq> []"
    by (simp add: keys_lenPool LENGTHS_def)
  moreover have "keys (linPool (buildWeightedPools b phase pitch)) \<noteq> []"
    by (simp add: keys_linPool LINES_def)
  ultimately show ?thesis by (auto simp: nonEmptyPools_def keys_def)
qed

lemma firstOf_Some: "pool \<noteq> [] \<Longrightarrow> \<exists>x. firstOf pool = Some x"
  by (cases pool) (auto simp: firstOf_def)

lemma firstOf_mem: "firstOf pool = Some x \<Longrightarrow> x \<in> set (keys pool)"
  by (cases pool) (auto simp: firstOf_def keys_def)

lemma fallback_Some: "nonEmptyPools ps \<Longrightarrow> \<exists>d. fallback ps phase = Some d"
  using firstOf_Some[of "delPool ps"] firstOf_Some[of "lenPool ps"] firstOf_Some[of "linPool ps"]
  by (auto simp: nonEmptyPools_def fallback_def)

lemma fallback_type: "fallback ps phase = Some d \<Longrightarrow> firstOf (delPool ps) = Some (dtype d)"
  by (auto simp: fallback_def split: option.splits)

lemma orPick_Some: "pool \<noteq> [] \<Longrightarrow> \<exists>x g'. orPick forced pool g = Some (x, g')"
  using pickWeighted_Some[of pool g] by (cases forced) (auto simp: orPick_def)

lemma orPick_mem:
  "orPick forced pool g = Some (x, g') \<Longrightarrow> forced = Some x \<or> (forced = None \<and> x \<in> set (keys pool))"
  by (cases forced) (auto simp: orPick_def dest: pickWeighted_mem)

lemma drawLoop_total:
  "nonEmptyPools ps \<Longrightarrow> \<exists>res. drawLoop n ps phase force g = Some res"
proof (induction n arbitrary: g)
  case 0
  then show ?case using fallback_Some[of ps phase] by auto
next
  case (Suc n)
  have ne: "delPool ps \<noteq> []" "lenPool ps \<noteq> []" "linPool ps \<noteq> []"
    using Suc.prems by (simp_all add: nonEmptyPools_def)
  obtain t r1 where 1: "orPick (Option.bind force p_type) (delPool ps) (rng g) = Some (t, r1)"
    using orPick_Some[OF ne(1)] by blast
  obtain l r2 where 2: "orPick (Option.bind force p_length) (lenPool ps) r1 = Some (l, r2)"
    using orPick_Some[OF ne(2)] by blast
  obtain m r3 where 3: "orPick (Option.bind force p_line) (linPool ps) r2 = Some (m, r3)"
    using orPick_Some[OF ne(3)] by blast
  show ?case
    using Suc.IH[OF Suc.prems, of "g\<lparr>rng := r3\<rparr>"] by (auto simp add: 1 2 3 Let_def)
qed

lemma drawLoop_props:
  "drawLoop n ps phase force g = Some ((d, f), g') \<Longrightarrow>
     used g \<subseteq> used g'
     \<and> (Option.bind force p_type = Some (dtype d) \<or> dtype d \<in> set (keys (delPool ps)))
     \<and> (\<not> f \<longrightarrow> tripleOf d \<notin> used g \<and> tripleOf d \<in> used g')
     \<and> over d = 1"
proof (induction n arbitrary: g)
  case 0
  then obtain d0 where d0: "fallback ps phase = Some d0" and eq: "d = d0" "f" "g' = g"
    by (auto split: option.splits)
  have "dtype d \<in> set (keys (delPool ps))"
    using fallback_type[OF d0] firstOf_mem eq by metis
  moreover have "over d = 1"
    using d0 eq by (auto simp: fallback_def split: option.splits)
  ultimately show ?case using eq by simp
next
  case (Suc n)
  from Suc.prems obtain t r1 where 1: "orPick (Option.bind force p_type) (delPool ps) (rng g) = Some (t, r1)"
    by (auto split: option.splits)
  from Suc.prems 1 obtain l r2 where 2: "orPick (Option.bind force p_length) (lenPool ps) r1 = Some (l, r2)"
    by (auto split: option.splits)
  from Suc.prems 1 2 obtain m r3 where 3: "orPick (Option.bind force p_line) (linPool ps) r2 = Some (m, r3)"
    by (auto split: option.splits)
  show ?case
  proof (cases "key t l m \<in> used g")
    case True
    with Suc.prems 1 2 3 have "drawLoop n ps phase force (g\<lparr>rng := r3\<rparr>) = Some ((d, f), g')"
      by (simp add: Let_def)
    from Suc.IH[OF this] show ?thesis by simp
  next
    case False
    with Suc.prems 1 2 3 have d: "dtype d = t" "len d = l" "line d = m" "over d = 1" "\<not> f"
      and g': "used g' = insert (key t l m) (used g)"
      by (auto simp: Let_def)
    have "Option.bind force p_type = Some t \<or> t \<in> set (keys (delPool ps))"
      using orPick_mem[OF 1] by auto
    then show ?thesis using d g' False by (auto simp: tripleOf_def)
  qed
qed

lemma fill_total:
  "nonEmptyPools ps \<Longrightarrow> \<exists>ds g'. fill n ps phase g = Some (ds, g')"
proof (induction n arbitrary: g)
  case 0
  show ?case by simp
next
  case (Suc n)
  obtain d g1 where 1: "drawUnique ps phase None g = Some (d, g1)"
    using drawLoop_total[OF Suc.prems, of 200 phase None g] by (auto simp: drawUnique_def)
  obtain ds g2 where 2: "fill n ps phase g1 = Some (ds, g2)"
    using Suc.IH[OF Suc.prems, of g1] by blast
  show ?case by (simp add: 1 2)
qed

lemma fill_props:
  "fill n ps phase g = Some (ds, g') \<Longrightarrow>
     length ds = n \<and> used g \<subseteq> used g'
     \<and> (\<forall>x \<in> set ds. dtype (fst x) \<in> set (keys (delPool ps)) \<and> over (fst x) = 1)
     \<and> distinct (freshTriples ds)
     \<and> set (freshTriples ds) \<inter> used g = {}
     \<and> set (freshTriples ds) \<subseteq> used g'"
proof (induction n arbitrary: g ds)
  case 0
  then show ?case by (simp add: freshTriples_def)
next
  case (Suc n)
  from Suc.prems obtain d f g1 where 1: "drawLoop 200 ps phase None g = Some ((d, f), g1)"
    by (auto simp: drawUnique_def split: option.splits)
  from Suc.prems 1 obtain ds' where 2: "fill n ps phase g1 = Some (ds', g')" and ds: "ds = (d, f) # ds'"
    by (auto simp: drawUnique_def split: option.splits)
  note p = drawLoop_props[OF 1]
  note ih = Suc.IH[OF 2]
  have ty: "dtype d \<in> set (keys (delPool ps))" using p by simp
  show ?case
  proof (cases f)
    case True
    then have "freshTriples ds = freshTriples ds'" by (simp add: ds freshTriples_def)
    then show ?thesis using p ih ty by (auto simp: ds)
  next
    case False
    then have fr: "freshTriples ds = tripleOf d # freshTriples ds'" by (simp add: ds freshTriples_def)
    from False p have "tripleOf d \<notin> used g" "tripleOf d \<in> used g1" by simp_all
    then show ?thesis using p ih ty unfolding fr by (auto simp: ds)
  qed
qed

lemma trapStart_bound: "6 \<le> balls \<Longrightarrow> trapStart balls + 2 < balls"
  by (simp add: trapStart_def)

lemma generateTagged_total:
  "\<exists>out. generateTagged bowler balls phase pitch seedHint = Some out \<and> length out = balls"
proof -
  let ?ps = "buildWeightedPools bowler phase pitch"
  let ?g0 = "\<lparr>rng = seedOf bowler phase pitch seedHint, used = {}\<rparr>"
  have ne: "nonEmptyPools ?ps" by (rule nonEmptyPools_build)
  obtain out g1 where f: "fill balls ?ps phase ?g0 = Some (out, g1)"
    using fill_total[OF ne] by blast
  have len: "length out = balls" using fill_props[OF f] by simp
  obtain d1 g2 where 1: "drawUnique ?ps phase (Some (trap_setup (trapOf bowler phase) ! 0)) g1 = Some (d1, g2)"
    using drawLoop_total[OF ne] by (metis drawUnique_def surj_pair)
  obtain d2 g3 where 2: "drawUnique ?ps phase (Some (trap_setup (trapOf bowler phase) ! 1)) g2 = Some (d2, g3)"
    using drawLoop_total[OF ne] by (metis drawUnique_def surj_pair)
  obtain d3 g4 where 3: "drawUnique ?ps phase (Some (trap_payoff (trapOf bowler phase))) g3 = Some (d3, g4)"
    using drawLoop_total[OF ne] by (metis drawUnique_def surj_pair)
  show ?thesis
    by (simp add: generateTagged_def Let_def f 1 2 3 len del: One_nat_def)
qed

lemma length_stampFrom: "length (stampFrom i ds) = length ds"
  by (induction ds arbitrary: i) simp_all

lemma map_over_stampFrom: "map over (stampFrom i ds) = map (\<lambda>j. j div 6 + 1) [i..<i + length ds]"
proof (induction ds arbitrary: i)
  case Nil
  show ?case by simp
next
  case (Cons d ds)
  have "[i..<i + length (d # ds)] = i # [Suc i..<i + length (d # ds)]"
    by (rule upt_conv_Cons) simp
  then show ?case using Cons.IH[of "Suc i"] by simp
qed

lemma buildOverPlan_over:
  "\<exists>out. buildOverPlan bowler ovs phase pitch = Some out
      \<and> map over out = map (\<lambda>i. i div 6 + 1) [0..<6 * ovs]"
proof -
  obtain out where o: "generateDeliveries bowler (ovs * 6) phase pitch (js ''ov:'' @ js (showNat ovs)) = Some out"
    and l: "length out = ovs * 6"
    using generateTagged_total[of bowler "ovs * 6" phase pitch "js ''ov:'' @ js (showNat ovs)"]
    by (auto simp: generateDeliveries_def)
  show ?thesis
    using map_over_stampFrom[of 0 out] by (simp add: buildOverPlan_def Let_def o l mult.commute)
qed

lemmas trap_unfold = trapOf_def trapForSpin_def trapForPace_def step_def familyOf_def
  DELIVERY_TYPES_SPIN_def DELIVERY_TYPES_PACE_def

lemma trap_type0:
  "\<exists>t. p_type (trap_setup (trapOf b phase) ! 0) = Some t \<and> t \<in> set (familyOf b)"
  by (cases phase) (simp_all add: trap_unfold)

lemma trap_type1:
  "\<exists>t. p_type (trap_setup (trapOf b phase) ! 1) = Some t \<and> t \<in> set (familyOf b)"
  by (cases phase) (simp_all add: trap_unfold)

lemma trap_type2:
  "\<exists>t. p_type (trap_payoff (trapOf b phase)) = Some t \<and> t \<in> set (familyOf b)"
  by (cases phase) (simp_all add: trap_unfold)

lemma drawUnique_type:
  assumes "drawUnique ps phase (Some p) g = Some ((d, f), g')" "p_type p = Some t"
  shows "dtype d = t \<or> dtype d \<in> set (keys (delPool ps))"
  using drawLoop_props[OF assms(1)[unfolded drawUnique_def]] assms(2) by auto

lemma fill_types:
  "fill n ps phase g = Some (ds, g') \<Longrightarrow> x \<in> set ds \<Longrightarrow> dtype (fst x) \<in> set (keys (delPool ps))"
  using fill_props[of n ps phase g ds g'] by blast

lemma set_update3: "set (xs[i := a, j := b, k := c]) \<subseteq> {a, b, c} \<union> set xs"
proof
  fix x assume "x \<in> set (xs[i := a, j := b, k := c])"
  then have "x = c \<or> x \<in> set (xs[i := a, j := b])"
    using set_update_subset_insert[of "xs[i := a, j := b]" k c] by auto
  moreover have "set (xs[i := a, j := b]) \<subseteq> insert b (set (xs[i := a]))"
    by (rule set_update_subset_insert)
  moreover have "set (xs[i := a]) \<subseteq> insert a (set xs)"
    by (rule set_update_subset_insert)
  ultimately show "x \<in> {a, b, c} \<union> set xs" by auto
qed

lemma pool_in_family:
  "isSpin b \<longrightarrow> pitch = Normal \<Longrightarrow>
     set (keys (delPool (buildWeightedPools b phase pitch))) \<subseteq> set (familyOf b)"
  by (auto simp: keys_delPool familyOf_def pitchExtras_def)

lemma generateTagged_small:
  assumes "\<not> 6 \<le> n"
  obtains fo g1 where
    "fill n (buildWeightedPools b phase pitch) phase \<lparr>rng = seedOf b phase pitch h, used = {}\<rparr>
       = Some (fo, g1)"
    "generateTagged b n phase pitch h = Some fo"
proof -
  let ?ps = "buildWeightedPools b phase pitch"
  let ?g0 = "\<lparr>rng = seedOf b phase pitch h, used = {}\<rparr>"
  have ne: "nonEmptyPools ?ps" by (rule nonEmptyPools_build)
  obtain fo g1 where f: "fill n ?ps phase ?g0 = Some (fo, g1)"
    using fill_total[OF ne] by blast
  have gt: "generateTagged b n phase pitch h = Some fo"
    using assms by (simp add: generateTagged_def Let_def f)
  show thesis by (rule that[OF f gt])
qed

lemma generateTagged_big:
  assumes "6 \<le> n"
  obtains fo g1 d1 g2 d2 g3 d3 g4 where
    "fill n (buildWeightedPools b phase pitch) phase \<lparr>rng = seedOf b phase pitch h, used = {}\<rparr>
       = Some (fo, g1)"
    "drawUnique (buildWeightedPools b phase pitch) phase
       (Some (trap_setup (trapOf b phase) ! 0)) g1 = Some (d1, g2)"
    "drawUnique (buildWeightedPools b phase pitch) phase
       (Some (trap_setup (trapOf b phase) ! 1)) g2 = Some (d2, g3)"
    "drawUnique (buildWeightedPools b phase pitch) phase
       (Some (trap_payoff (trapOf b phase))) g3 = Some (d3, g4)"
    "generateTagged b n phase pitch h
       = Some (fo[trapStart n := d1, trapStart n + 1 := d2, trapStart n + 2 := d3])"
proof -
  let ?ps = "buildWeightedPools b phase pitch"
  let ?g0 = "\<lparr>rng = seedOf b phase pitch h, used = {}\<rparr>"
  have ne: "nonEmptyPools ?ps" by (rule nonEmptyPools_build)
  obtain fo g1 where f: "fill n ?ps phase ?g0 = Some (fo, g1)"
    using fill_total[OF ne] by blast
  obtain d1 g2 where 1: "drawUnique ?ps phase (Some (trap_setup (trapOf b phase) ! 0)) g1 = Some (d1, g2)"
    using drawLoop_total[OF ne] by (metis drawUnique_def surj_pair)
  obtain d2 g3 where 2: "drawUnique ?ps phase (Some (trap_setup (trapOf b phase) ! 1)) g2 = Some (d2, g3)"
    using drawLoop_total[OF ne] by (metis drawUnique_def surj_pair)
  obtain d3 g4 where 3: "drawUnique ?ps phase (Some (trap_payoff (trapOf b phase))) g3 = Some (d3, g4)"
    using drawLoop_total[OF ne] by (metis drawUnique_def surj_pair)
  have gt: "generateTagged b n phase pitch h =
          Some (fo[trapStart n := d1, trapStart n + 1 := d2, trapStart n + 2 := d3])"
    using assms by (simp add: generateTagged_def Let_def f 1 2 3 del: One_nat_def)
  show thesis by (rule that[OF f 1 2 3 gt])
qed

lemma generateTagged_types:
  assumes "generateTagged b n phase pitch h = Some out" "x \<in> set out"
  shows "dtype (fst x) \<in> set (familyOf b) \<union> set (keys (delPool (buildWeightedPools b phase pitch)))"
proof (cases "6 \<le> n")
  case False
  obtain fo g1 where
    f: "fill n (buildWeightedPools b phase pitch) phase \<lparr>rng = seedOf b phase pitch h, used = {}\<rparr>
          = Some (fo, g1)" and
    gt: "generateTagged b n phase pitch h = Some fo"
    by (rule generateTagged_small[OF False, of b phase pitch h])
  from gt assms(1) have "out = fo" by simp
  with fill_types[OF f] assms(2) show ?thesis by blast
next
  case True
  let ?ps = "buildWeightedPools b phase pitch"
  let ?tr = "trapOf b phase"
  let ?K = "set (familyOf b) \<union> set (keys (delPool ?ps))"
  obtain fo g1 d1 g2 d2 g3 d3 g4 where
    f: "fill n ?ps phase \<lparr>rng = seedOf b phase pitch h, used = {}\<rparr> = Some (fo, g1)" and
    1: "drawUnique ?ps phase (Some (trap_setup ?tr ! 0)) g1 = Some (d1, g2)" and
    2: "drawUnique ?ps phase (Some (trap_setup ?tr ! 1)) g2 = Some (d2, g3)" and
    3: "drawUnique ?ps phase (Some (trap_payoff ?tr)) g3 = Some (d3, g4)" and
    gt: "generateTagged b n phase pitch h
           = Some (fo[trapStart n := d1, trapStart n + 1 := d2, trapStart n + 2 := d3])"
    by (rule generateTagged_big[OF True, of b phase pitch h])
  from gt assms(1) have out: "out = fo[trapStart n := d1, trapStart n + 1 := d2, trapStart n + 2 := d3]"
    by simp
  obtain t1 where t1: "p_type (trap_setup ?tr ! 0) = Some t1" "t1 \<in> set (familyOf b)"
    using trap_type0[of b phase] by blast
  obtain t2 where t2: "p_type (trap_setup ?tr ! 1) = Some t2" "t2 \<in> set (familyOf b)"
    using trap_type1[of b phase] by blast
  obtain t3 where t3: "p_type (trap_payoff ?tr) = Some t3" "t3 \<in> set (familyOf b)"
    using trap_type2[of b phase] by blast
  obtain e1 f1 where d1: "d1 = (e1, f1)" by (cases d1)
  obtain e2 f2 where d2: "d2 = (e2, f2)" by (cases d2)
  obtain e3 f3 where d3: "d3 = (e3, f3)" by (cases d3)
  have k1: "dtype e1 \<in> ?K" using drawUnique_type[OF 1[unfolded d1] t1(1)] t1(2) by blast
  have k2: "dtype e2 \<in> ?K" using drawUnique_type[OF 2[unfolded d2] t2(1)] t2(2) by blast
  have k3: "dtype e3 \<in> ?K" using drawUnique_type[OF 3[unfolded d3] t3(1)] t3(2) by blast
  from assms(2) have "x \<in> {d1, d2, d3} \<union> set fo"
    unfolding out using set_update3[of fo "trapStart n" d1 "trapStart n + 1" d2 "trapStart n + 2" d3] by blast
  then consider "x = d1" | "x = d2" | "x = d3" | "x \<in> set fo" by blast
  then show ?thesis
  proof cases
    case 1 then show ?thesis using k1 d1 by simp
  next
    case 2 then show ?thesis using k2 d2 by simp
  next
    case 3 then show ?thesis using k3 d3 by simp
  next
    case 4 then show ?thesis using fill_types[OF f] by blast
  qed
qed

section \<open>The in-page planner: choice, tables and the loop\<close>

lemma mulberry_range: "0 \<le> fst (mulberry g) \<and> fst (mulberry g) < 1"
proof -
  obtain w :: "32 word" where w: "fst (mulberry g) = of_int (uint w) / 4294967296"
    by (simp add: mulberry_def Let_def)
  define x :: rat where "x = of_int (uint w)"
  have "uint w < 4294967296" using uint_bounded[of w] by simp
  then have "x < of_int 4294967296" unfolding x_def by (simp only: of_int_less_iff)
  then have hi: "x < 4294967296" by simp
  have lo: "0 \<le> x" unfolding x_def by (simp only: of_int_0_le_iff uint_ge_0)
  have "fst (mulberry g) = x / 4294967296" unfolding x_def by (rule w)
  with lo hi show ?thesis by simp
qed

lemma choiceScan_hit:
  "0 \<le> r \<Longrightarrow> r < of_int (sum_list (map (weightOf disallow) w)) \<Longrightarrow>
     \<exists>k v. choiceScan r w disallow = Some k \<and> (k, v) \<in> set w \<and> 0 < v \<and> Some k \<notin> set disallow"
proof (induction w arbitrary: r)
  case Nil
  then show ?case by simp
next
  case (Cons p w)
  obtain k v where p: "p = (k, v)" by (cases p)
  let ?rest = "sum_list (map (weightOf disallow) w)"
  have hp: "weightOf disallow p = (if Some k \<in> set disallow then 0 else max 0 v)"
    by (simp add: weightOf_def p)
  from Cons.prems(2) have tot: "r < of_int (weightOf disallow p + ?rest)" by simp
  show ?case
  proof (cases "Some k \<in> set disallow")
    case True
    with tot hp have "r < of_int ?rest" by simp
    from Cons.IH[OF Cons.prems(1) this] obtain k' v' where
      "choiceScan r w disallow = Some k'" "(k', v') \<in> set w" "0 < v'" "Some k' \<notin> set disallow"
      by blast
    with True show ?thesis by (auto simp: p)
  next
    case False
    show ?thesis
    proof (cases "r < of_int (max 0 v)")
      case True
      have "0 < v"
      proof (rule ccontr)
        assume "\<not> 0 < v"
        then have "max 0 v = 0" by simp
        with True Cons.prems(1) show False by simp
      qed
      with True False show ?thesis by (auto simp: p Let_def)
    next
      case F2: False
      then have 1: "0 \<le> r - of_int (max 0 v)" by simp
      from tot hp False have 2: "r - of_int (max 0 v) < of_int ?rest" by simp
      from Cons.IH[OF 1 2] obtain k' v' where
        "choiceScan (r - of_int (max 0 v)) w disallow = Some k'" "(k', v') \<in> set w" "0 < v'"
        "Some k' \<notin> set disallow"
        by blast
      with F2 False show ?thesis by (auto simp: p Let_def)
    qed
  qed
qed

lemma choiceScan_mem: "choiceScan r w disallow = Some k \<Longrightarrow> k \<in> set (keys w)"
proof (induction w arbitrary: r)
  case Nil
  then show ?case by simp
next
  case (Cons p w)
  obtain k' v where p: "p = (k', v)" by (cases p)
  from Cons.prems Cons.IH show ?case
    by (auto simp: p keys_def Let_def split: if_splits)
qed

lemma weightedChoice_mem:
  "w \<noteq> [] \<Longrightarrow> \<exists>k. fst (weightedChoice g w disallow) = Some k \<and> k \<in> set (keys w)"
proof (cases "choiceScan (fst (mulberry g) * of_int (sum_list (map (\<lambda>(k, v). if Some k \<in> set disallow then 0 else max 0 v) w))) w disallow")
  case None
  assume "w \<noteq> []"
  then obtain k v rest where "w = (k, v) # rest" by (cases w) auto
  with None show ?thesis
    by (auto simp: weightedChoice_def Let_def firstKey_def keys_def split: prod.splits)
next
  case (Some k)
  from choiceScan_mem[OF Some] Some show ?thesis
    by (auto simp: weightedChoice_def Let_def split: prod.splits)
qed

lemma weightedChoice_avoids:
  assumes "0 < sum_list (map (weightOf disallow) w)"
  shows "fst (weightedChoice g w disallow) \<notin> set disallow"
proof -
  let ?total = "sum_list (map (weightOf disallow) w)"
  have eq: "(\<lambda>(k, v). if Some k \<in> set disallow then 0 else max 0 v) = weightOf disallow"
    by (auto simp: weightOf_def fun_eq_iff)
  let ?r = "fst (mulberry g) * of_int ?total"
  have "0 \<le> ?r" using mulberry_range[of g] assms by simp
  moreover have "?r < of_int ?total"
    using mulberry_range[of g] assms by simp
  ultimately obtain k v where "choiceScan ?r w disallow = Some k" "Some k \<notin> set disallow"
    using choiceScan_hit by blast
  then show ?thesis
    by (cases "mulberry g") (simp add: weightedChoice_def Let_def eq)
qed

lemma isSpinP_iff: "isSpinP b = (typeP b = legspin \<or> typeP b = offspin \<or> typeP b = leftarm_spin)"
  by (cases "typeP b") (simp_all add: isSpinP_def)

lemma keys_inc: "keys (inc w k d) = keys w"
  by (induction w) (auto simp: keys_def inc_def)

lemma positive_inc: "positive w \<Longrightarrow> 0 \<le> d \<Longrightarrow> positive (inc w k d)"
  by (induction w) (auto simp: positive_def inc_def)

lemma keys_incIf: "keys (incIf c w ds) = keys w"
proof -
  have "keys (foldl (\<lambda>w (k, d). inc w k d) w ds) = keys w"
    by (induction ds arbitrary: w) (auto simp: keys_inc)
  then show ?thesis by (simp add: incIf_def)
qed

lemma positive_incIf: "positive w \<Longrightarrow> list_all (\<lambda>p. 0 \<le> snd p) ds \<Longrightarrow> positive (incIf c w ds)"
proof -
  have "positive w \<Longrightarrow> list_all (\<lambda>p. 0 \<le> snd p) ds \<Longrightarrow> positive (foldl (\<lambda>w (k, d). inc w k d) w ds)"
    by (induction ds arbitrary: w) (auto simp: positive_inc)
  then show "positive w \<Longrightarrow> list_all (\<lambda>p. 0 \<le> snd p) ds \<Longrightarrow> positive (incIf c w ds)"
    by (simp add: incIf_def)
qed

lemma keys_derivePaceWeights: "keys (derivePaceWeights b phase pitch ss strategy) = paceKeys"
  by (simp add: derivePaceWeights_def Let_def keys_incIf) (simp add: keys_def paceKeys_def)

lemma positive_Nil: "positive []"
  by (simp add: positive_def)

lemma positive_Cons: "positive ((k, v) # w) = (0 < v \<and> positive w)"
  by (simp add: positive_def)

lemma positive_derivePaceWeights: "positive (derivePaceWeights b phase pitch ss strategy)"
  by (simp add: derivePaceWeights_def Let_def positive_incIf positive_Nil positive_Cons)

lemma keys_spinBaseWeights: "keys (spinBaseWeights b phase pitch ss strategy) = spinKeys"
  by (simp add: spinBaseWeights_def Let_def keys_incIf) (simp add: keys_def spinKeys_def)

lemma positive_spinBaseWeights: "positive (spinBaseWeights b phase pitch ss strategy)"
  by (simp add: spinBaseWeights_def Let_def positive_incIf positive_Nil positive_Cons)

lemma filter_zeroed:
  "filter (\<lambda>(k, v). k \<in> A) (map (\<lambda>(k, v). if k \<notin> A then (k, 0) else (k, v)) w)
   = filter (\<lambda>(k, v). k \<in> A) w"
  by (induction w) (auto split: if_splits)

lemma keys_filter: "keys (filter (\<lambda>(k, v). P k) w) = filter P (keys w)"
  by (induction w) (auto simp: keys_def)

lemma positive_filter: "positive w \<Longrightarrow> positive (filter P w)"
  by (induction w) (auto simp: positive_def)

lemma allowed_pace: "\<not> isSpinP b \<Longrightarrow> allowedTypesFor b = set paceKeys"
  by (auto simp: isSpinP_iff allowedTypesFor_def paceKeys_def)

lemma clampFamily_ok: "tableOK b (clampFamily b (ballWeightsOf b phase pitch))"
proof (cases "isSpinP b")
  case False
  let ?w = "derivePaceWeights b phase pitch (map toLowerCase (strengthsP b)) (toLowerCase (strategiesP b))"
  have bw: "ballWeightsOf b phase pitch = ?w" using False by (simp add: ballWeightsOf_def Let_def)
  have "fst ` set ?w = set paceKeys"
    using keys_derivePaceWeights[of b phase pitch] by (metis keys_def set_map)
  then have "\<forall>p \<in> set ?w. fst p \<in> allowedTypesFor b"
    using allowed_pace[OF False] by auto
  then have "filter (\<lambda>(k, v). k \<in> allowedTypesFor b) ?w = ?w"
    by (auto simp: filter_id_conv)
  moreover have "?w \<noteq> []"
    using keys_derivePaceWeights[of b phase pitch "map toLowerCase (strengthsP b)" "toLowerCase (strategiesP b)"]
    by (auto simp: keys_def paceKeys_def)
  ultimately have "clampFamily b (ballWeightsOf b phase pitch) = ?w"
    by (simp add: clampFamily_def bw Let_def)
  moreover have "keys ?w = paceKeys" by (rule keys_derivePaceWeights)
  moreover have "positive ?w" by (rule positive_derivePaceWeights)
  ultimately show ?thesis
    using allowed_pace[OF False] by (simp add: tableOK_def paceKeys_def)
next
  case True
  define base where "base = spinBaseWeights b phase pitch (map toLowerCase (strengthsP b)) (toLowerCase (strategiesP b))"
  have base: "keys base = spinKeys" "positive base"
    "deriveSpinWeights b phase pitch (map toLowerCase (strengthsP b)) (toLowerCase (strategiesP b)) =
       map (\<lambda>(k, v). if k \<notin> allowedTypesFor b then (k, 0) else (k, v)) base"
    by (simp_all add: base_def keys_spinBaseWeights positive_spinBaseWeights deriveSpinWeights_def Let_def)
  let ?f = "filter (\<lambda>(k, v). k \<in> allowedTypesFor b) base"
  have bw: "filter (\<lambda>(k, v). k \<in> allowedTypesFor b) (ballWeightsOf b phase pitch) = ?f"
    using True by (simp add: ballWeightsOf_def Let_def base(3) filter_zeroed)
  have kf: "keys ?f = filter (\<lambda>k. k \<in> allowedTypesFor b) spinKeys"
    by (simp add: keys_filter base(1))
  have two: "2 \<le> length (keys ?f)" and d: "distinct (keys ?f)" and sub: "set (keys ?f) \<subseteq> allowedTypesFor b"
    unfolding kf using True
    by (auto simp: isSpinP_iff allowedTypesFor_def spinKeys_def)
  from two have ne: "?f \<noteq> []" by (auto simp: keys_def)
  have "clampFamily b (ballWeightsOf b phase pitch) = ?f"
    using ne by (simp add: clampFamily_def Let_def bw)
  then show ?thesis
    using two d sub positive_filter[OF base(2)] by (simp add: tableOK_def)
qed

lemma keys_plus: "keys (plus w k d) = (if k \<in> set (keys w) then keys w else keys w @ [k])"
  by (simp add: plus_def keys_assign)

lemma positive_assign_new: "positive w \<Longrightarrow> 0 < v \<Longrightarrow> positive (assign w k v)"
proof (induction w)
  case Nil
  then show ?case by (simp add: positive_def)
next
  case (Cons p w)
  obtain k' v' where p: "p = (k', v')" by (cases p)
  from Cons show ?case by (auto simp: p positive_def)
qed

lemma map_of_positive: "positive w \<Longrightarrow> map_of w k = Some v \<Longrightarrow> 0 < v"
  by (induction w) (auto simp: positive_def split: if_splits)

lemma positive_plus: "positive w \<Longrightarrow> 0 < d \<Longrightarrow> positive (plus w k d)"
proof -
  assume w: "positive w" and d: "0 < d"
  have "0 < (case map_of w k of None \<Rightarrow> 0 | Some v \<Rightarrow> v) + d"
    using map_of_positive[OF w, of k] d by (cases "map_of w k") auto
  then show ?thesis unfolding plus_def by (rule positive_assign_new[OF w])
qed

lemma tableOK_plus: "tableOK b w \<Longrightarrow> k \<in> allowedTypesFor b \<Longrightarrow> 0 < d \<Longrightarrow> tableOK b (plus w k d)"
  by (auto simp: tableOK_def keys_plus positive_plus)

lemma tableOK_plusIfPresent: "tableOK b w \<Longrightarrow> 0 \<le> d \<Longrightarrow> tableOK b (plusIfPresent w k d)"
  by (auto simp: tableOK_def plusIfPresent_def keys_inc positive_inc)

lemma tableOK_ty: "tableOK b (localType l) \<Longrightarrow> k \<in> allowedTypesFor b \<Longrightarrow> 0 < d \<Longrightarrow> tableOK b (localType (addType k d l))"
  by (simp add: addType_def tableOK_plus)

lemma localType_le: "localType (addLength k d l) = localType l"
  by (simp add: addLength_def)

lemma localType_li: "localType (addLine k d l) = localType l"
  by (simp add: addLine_def)

lemma tableOK_pacePulses:
  assumes "\<not> isSpinP b" "tableOK b (localType l)"
  shows "tableOK b (localType (pacePulses b phase ball l))"
proof -
  have al: "allowedTypesFor b = {outswing, inswing, seam_ball, cutter, slower_ball, knuckle, bouncer}"
    using allowed_pace[OF assms(1)] by (simp add: paceKeys_def)
  show ?thesis
    using assms(2)
    by (simp add: pacePulses_def Let_def whenever_def tableOK_ty localType_le localType_li al)
qed

lemma tableOK_spinPulses:
  "tableOK b (localType l) \<Longrightarrow> tableOK b (localType (spinPulses ball l))"
  by (simp add: spinPulses_def tableOK_plusIfPresent)

lemma tableOK_localFor:
  "tableOK b (localType (localFor b phase (ballWeightsOf b phase pitch) lw nw ball))"
  by (simp add: localFor_def Let_def tableOK_pacePulses tableOK_spinPulses clampFamily_ok)

lemma weightOf_nonneg: "0 \<le> weightOf disallow p"
  by (simp add: weightOf_def)

lemma sum_weightOf_nonneg: "0 \<le> sum_list (map (weightOf disallow) w)"
  by (induction w) (simp_all add: weightOf_nonneg add_nonneg_nonneg)

lemma sum_positive:
  assumes "positive w" "distinct (keys w)" "2 \<le> length (keys w)" "length disallow \<le> 1"
  shows "0 < sum_list (map (weightOf disallow) w)"
proof -
  from assms(3) obtain p1 p2 rest where w: "w = p1 # p2 # rest"
    by (cases w; cases "tl w") (auto simp: keys_def)
  from assms(2) have ne: "fst p1 \<noteq> fst p2" by (simp add: w keys_def)
  from assms(1) have pos: "0 < snd p1" "0 < snd p2" by (simp_all add: w positive_def)
  have "\<not> (Some (fst p1) \<in> set disallow \<and> Some (fst p2) \<in> set disallow)"
  proof
    assume a: "Some (fst p1) \<in> set disallow \<and> Some (fst p2) \<in> set disallow"
    from assms(4) obtain x where "disallow = [] \<or> disallow = [x]"
      by (cases disallow; cases "tl disallow") auto
    with a ne show False by auto
  qed
  then have "0 < weightOf disallow p1 + weightOf disallow p2"
    using pos weightOf_nonneg[of disallow p1] weightOf_nonneg[of disallow p2]
    by (auto simp: weightOf_def)
  then show ?thesis
    using sum_weightOf_nonneg[of disallow rest] by (simp add: w)
qed

lemma length_disallowFor: "length (disallowFor r) \<le> 1"
  by (auto simp: disallowFor_def split: list.splits)

lemma purposeFor_Some:
  "lB = Some yorker \<longrightarrow> nB \<noteq> None \<Longrightarrow> \<exists>p. purposeFor t nB lB = Some p"
  by (auto simp: purposeFor_def split: option.splits)

lemma coherence_props:
  assumes "coherence spin t lA nA g = (lB, nB, g')"
  shows "lB = Some yorker \<longrightarrow> nB \<in> {Some fourth_fifth_stump, Some off_stump, Some outside_off}"
    and "t = Some bouncer \<and> lB \<noteq> Some yorker \<longrightarrow> nB = Some at_body"
  using assms
  by (auto simp: coherence_def Let_def split: if_splits prod.splits)

lemma ballAt_props:
  "\<exists>d st'. ballAt b phase (ballWeightsOf b phase pitch) lw nw i st = Some (d, st')
      \<and> overP d = i div 6 + 1 \<and> ballP d = i mod 6 + 1
      \<and> (\<exists>k. btypeP d = Some k \<and> k \<in> allowedTypesFor b)
      \<and> btypeP d \<notin> set (disallowFor (recent st))
      \<and> recent st' = pushRecent (recent st) (btypeP d)
      \<and> coherentItem d"
proof -
  let ?l = "localFor b phase (ballWeightsOf b phase pitch) lw nw (Suc (i mod 6))"
  let ?dis = "disallowFor (recent st)"
  have ok: "tableOK b (localType ?l)" by (rule tableOK_localFor)
  obtain t g1 where wc1: "weightedChoice (gen st) (localType ?l) ?dis = (t, g1)"
    by (cases "weightedChoice (gen st) (localType ?l) ?dis")
  obtain pl g2 where wc2: "weightedChoice g1 (localLength ?l) [] = (pl, g2)"
    by (cases "weightedChoice g1 (localLength ?l) []")
  obtain pn g3 where wc3: "weightedChoice g2 (localLine ?l) [] = (pn, g3)"
    by (cases "weightedChoice g2 (localLine ?l) []")
  obtain pl' pn' g4 where co: "coherence (isSpinP b) t pl pn g3 = (pl', pn', g4)"
    by (cases "coherence (isSpinP b) t pl pn g3")
  from ok have ne: "localType ?l \<noteq> []" by (auto simp: tableOK_def keys_def)
  from weightedChoice_mem[OF ne, of "gen st" ?dis] wc1 ok
  obtain k where k: "t = Some k" "k \<in> allowedTypesFor b"
    by (auto simp: tableOK_def)
  have "0 < sum_list (map (weightOf ?dis) (localType ?l))"
    using ok by (intro sum_positive length_disallowFor) (simp_all add: tableOK_def)
  from weightedChoice_avoids[OF this, of "gen st"] wc1 have av: "t \<notin> set ?dis" by simp
  note cp = coherence_props[OF co]
  from cp(1) have "pl' = Some yorker \<longrightarrow> pn' \<noteq> None" by auto
  from purposeFor_Some[OF this] obtain p where p: "purposeFor t pn' pl' = Some p" by blast
  have "ballAt b phase (ballWeightsOf b phase pitch) lw nw i st =
          Some (\<lparr>overP = i div 6 + 1, ballP = i mod 6 + 1, btypeP = t, lengthP = pl',
                 lineP = pn', pitchPurpose = p\<rparr>,
                \<lparr>gen = g4, recent = pushRecent (recent st) t\<rparr>)"
    by (simp add: ballAt_def Let_def wc1 wc2 wc3 co p)
  then show ?thesis using k av cp by (simp add: coherentItem_def)
qed

lemma planFrom_props:
  "length (recent st) \<le> 2 \<Longrightarrow>
   \<exists>ds. planFrom n b phase (ballWeightsOf b phase pitch) lw nw i st = Some ds
      \<and> map (\<lambda>d. (overP d, ballP d)) ds = map (\<lambda>j. (j div 6 + 1, j mod 6 + 1)) [i..<i + n]
      \<and> list_all (\<lambda>d. \<exists>k. btypeP d = Some k \<and> k \<in> allowedTypesFor b) ds
      \<and> list_all coherentItem ds
      \<and> noThreeInARow (recent st @ map btypeP ds)"
proof (induction n arbitrary: i st)
  case 0
  then show ?case by (cases "recent st"; cases "tl (recent st)") auto
next
  case (Suc n)
  let ?bw = "ballWeightsOf b phase pitch"
  obtain d st' where d: "ballAt b phase ?bw lw nw i st = Some (d, st')"
    and num: "overP d = i div 6 + 1" "ballP d = i mod 6 + 1"
    and ty: "\<exists>k. btypeP d = Some k \<and> k \<in> allowedTypesFor b"
    and av: "btypeP d \<notin> set (disallowFor (recent st))"
    and rc: "recent st' = pushRecent (recent st) (btypeP d)"
    and co: "coherentItem d"
    using ballAt_props[of b phase pitch lw nw i st] by blast
  have len': "length (recent st') \<le> 2"
    using Suc.prems by (auto simp: rc pushRecent_def Let_def)
  from Suc.IH[OF len', of "Suc i"] obtain ds where
    ds: "planFrom n b phase ?bw lw nw (Suc i) st' = Some ds"
    and dnum: "map (\<lambda>d. (overP d, ballP d)) ds = map (\<lambda>j. (j div 6 + 1, j mod 6 + 1)) [Suc i..<Suc i + n]"
    and dty: "list_all (\<lambda>d. \<exists>k. btypeP d = Some k \<and> k \<in> allowedTypesFor b) ds"
    and dco: "list_all coherentItem ds"
    and dno: "noThreeInARow (recent st' @ map btypeP ds)"
    by blast
  have upt: "[i..<i + Suc n] = i # [Suc i..<Suc i + n]"
    by (simp add: upt_conv_Cons)
  have no: "noThreeInARow (recent st @ map btypeP (d # ds))"
  proof (cases "recent st")
    case Nil
    with dno rc show ?thesis by (simp add: pushRecent_def)
  next
    case (Cons a r1)
    show ?thesis
    proof (cases r1)
      case Nil
      with Cons dno rc show ?thesis by (simp add: pushRecent_def)
    next
      case (Cons c r2)
      with \<open>recent st = a # r1\<close> Suc.prems have r: "recent st = [a, c]" by simp
      from av have "\<not> (a = c \<and> c = btypeP d)" by (auto simp: r disallowFor_def)
      moreover from dno rc have "noThreeInARow (c # btypeP d # map btypeP ds)"
        by (simp add: r pushRecent_def)
      ultimately show ?thesis by (simp add: r)
    qed
  qed
  show ?case
    using d ds num dnum ty dty co dco no unfolding upt by simp
qed

lemma buildVariedPlan_props:
  "\<exists>ds. buildVariedPlan b n phase pitch salt = Some ds
      \<and> map (\<lambda>d. (overP d, ballP d)) ds = map (\<lambda>j. (j div 6 + 1, j mod 6 + 1)) [0..<max 1 n * 6]
      \<and> list_all (\<lambda>d. \<exists>k. btypeP d = Some k \<and> k \<in> allowedTypesFor b) ds
      \<and> list_all coherentItem ds
      \<and> noThreeInARow (map btypeP ds)"
  using planFrom_props[of "\<lparr>gen = uint (seedOfP b phase pitch n salt), recent = []\<rparr>"
      "max 1 n * 6" b phase pitch "lengthWeightsFor b phase pitch" "lineWeightsFor b phase pitch" 0]
  by (simp add: buildVariedPlan_def Let_def)

section \<open>The claims\<close>

text \<open>
  Claim C10 (output length). For every bowler, phase, pitch, seed hint and ball count
  \<open>n\<close>, \<^verbatim>\<open>generateDeliveries\<close> returns, without raising, a list of exactly \<open>n\<close>
  deliveries: the trap is written over three positions inside the list and does not change
  its length. Hence \<^verbatim>\<open>buildOverPlan\<close> returns exactly \<open>6 * overs\<close> deliveries.
\<close>

theorem C10_output_length:
  "(\<exists>out. generateDeliveries bowler n phase pitch seedHint = Some out \<and> length out = n)
   \<and> (\<exists>out. buildOverPlan bowler ovs phase pitch = Some out \<and> length out = 6 * ovs)"
proof -
  have a: "\<exists>out. generateDeliveries b k phase pitch h = Some out \<and> length out = k" for b k h
    using generateTagged_total[of b k phase pitch h] by (auto simp: generateDeliveries_def)
  from a[of bowler "ovs * 6" "js ''ov:'' @ js (showNat ovs)"]
  have "\<exists>out. buildOverPlan bowler ovs phase pitch = Some out \<and> length out = 6 * ovs"
    by (auto simp: buildOverPlan_def Let_def length_stampFrom mult.commute)
  with a show ?thesis by blast
qed

text \<open>
  Claim C9 (numbering). \<^verbatim>\<open>buildOverPlan\<close> stamps the delivery at 0-based index \<open>i\<close>
  with over \<open>i div 6 + 1\<close>; \<^verbatim>\<open>buildVariedPlan\<close> stamps it with over \<open>i div 6 + 1\<close> and
  ball \<open>i mod 6 + 1\<close>, so the ball numbers cycle through 1..6 within each over. Both
  return without raising.
\<close>

theorem C9_numbering:
  "(\<exists>out. buildOverPlan bowler ovs phase pitch = Some out
       \<and> map over out = map (\<lambda>i. i div 6 + 1) [0..<6 * ovs])
   \<and> (\<exists>plan. buildVariedPlan b n phase pitchP salt = Some plan
       \<and> map (\<lambda>d. (overP d, ballP d)) plan
           = map (\<lambda>i. (i div 6 + 1, i mod 6 + 1)) [0..<max 1 n * 6])"
  using buildOverPlan_over[of bowler ovs phase pitch] buildVariedPlan_props[of b n phase pitchP salt]
  by blast

text \<open>
  Claim C5 (anti-streak), as amended. The planner of the page, \<^verbatim>\<open>buildVariedPlan\<close>, never
  returns three consecutive deliveries of one type: the type that filled the last two
  balls is excluded from the third draw, and the clamped type table always keeps another
  type of positive weight. The planner of the library, \<^verbatim>\<open>generateDeliveries\<close>, has no such
  rule and is not covered.
\<close>

theorem C5_no_three_in_a_row:
  "\<exists>plan. buildVariedPlan b n phase pitch salt = Some plan \<and> noThreeInARow (map btypeP plan)"
  using buildVariedPlan_props[of b n phase pitch salt] by blast

text \<open>
  Claim C2 (archetype legality), as amended. In the planner of the page every delivery
  type lies in \<^verbatim>\<open>allowedTypesFor\<close> of the bowler: the leg-spin family for a leg-spinner,
  the off-spin family for an off-spinner or left-arm spinner, the pace family otherwise.
  The planner of the library knows one spin set for every spin-type bowler and one pace
  set: there, every delivery of a bowler that is not a spin type has a pace type, and
  every delivery of a spin-type bowler on a Normal pitch has a type of the spin set, the
  three trap deliveries included.
\<close>

theorem C2_family_legality:
  "(\<exists>plan. buildVariedPlan bP n phase pitchP salt = Some plan
       \<and> list_all (\<lambda>d. \<exists>k. btypeP d = Some k \<and> k \<in> allowedTypesFor bP) plan)
   \<and> ((isSpin b \<longrightarrow> pitch = Normal) \<longrightarrow>
        (\<exists>out. generateDeliveries b balls phase pitch h = Some out
           \<and> set (map dtype out) \<subseteq> set (familyOf b)))"
proof -
  have "\<exists>out. generateDeliveries b balls phase pitch h = Some out
           \<and> set (map dtype out) \<subseteq> set (familyOf b)" if ok: "isSpin b \<longrightarrow> pitch = Normal"
  proof -
    obtain tg where tg: "generateTagged b balls phase pitch h = Some tg"
      using generateTagged_total by blast
    have "dtype (fst x) \<in> set (familyOf b)" if "x \<in> set tg" for x
      using generateTagged_types[OF tg that] pool_in_family[OF ok, of phase] by blast
    then show ?thesis by (auto simp: generateDeliveries_def tg)
  qed
  then show ?thesis using buildVariedPlan_props[of bP n phase pitchP salt] by blast
qed

end
